theory Spec2Isabelle
  imports Complex_Main "HOL-Library.AList"
begin

section \<open>JavaScript values\<close>

text \<open>
  The orbital pipeline of \<^verbatim>\<open>src/components/Orrery/Orrery.jsx\<close> works on plain
  JavaScript values. A JavaScript number is an IEEE double: a finite value, one of the two
  infinities, or NaN. The finite doubles are modelled by the reals they denote (a decimal
  literal by its decimal value, the two zeros are not distinguished); comparisons are exact
  on them. Arithmetic that rounds (\<^verbatim>\<open>+ - * /\<close>,
  \<^verbatim>\<open>Math.cos\<close>, \<^verbatim>\<open>Math.sin\<close>) is not fixed here: it is a field of the
  record \<open>host\<close> below, so every theorem holds for whatever the engine computes,
  overflow to an infinity included.
\<close>

datatype number = Finite real | PosInfinity | NegInfinity | NaN

datatype jsval =
    Undefined
  | Null
  | Boolean bool
  | Number number
  | String string
  | Array "jsval list"
  | Object "(string \<times> jsval) list"

type_synonym jsobj = "(string \<times> jsval) list"

text \<open>
  An object is the list of its own properties; reading a property that is absent gives
  \<^verbatim>\<open>undefined\<close>, writing one replaces it or appends it.
\<close>

definition get_prop :: "jsobj \<Rightarrow> string \<Rightarrow> jsval" where
  "get_prop obj k = (case map_of obj k of None \<Rightarrow> Undefined | Some v \<Rightarrow> v)"

definition set_prop :: "jsobj \<Rightarrow> string \<Rightarrow> jsval \<Rightarrow> jsobj" where
  "set_prop obj k v = AList.update k v obj"

fun typeof :: "jsval \<Rightarrow> string" where
  "typeof Undefined = ''undefined''"
| "typeof Null = ''object''"
| "typeof (Boolean b) = ''boolean''"
| "typeof (Number n) = ''number''"
| "typeof (String s) = ''string''"
| "typeof (Array xs) = ''object''"
| "typeof (Object kvs) = ''object''"

text \<open>Truthiness, as \<^verbatim>\<open>!v\<close> and \<^verbatim>\<open>v || w\<close> test it.\<close>

fun truthy :: "jsval \<Rightarrow> bool" where
  "truthy Undefined = False"
| "truthy Null = False"
| "truthy (Boolean b) = b"
| "truthy (Number n) = (n \<noteq> NaN \<and> n \<noteq> Finite 0)"
| "truthy (String s) = (s \<noteq> [])"
| "truthy (Array xs) = True"
| "truthy (Object kvs) = True"

text \<open>
  The engine: rounding arithmetic, and the number a string, an array or an object converts
  to (\<^verbatim>\<open>ToNumber\<close> on the values that need parsing or \<^verbatim>\<open>valueOf\<close>).
\<close>

record host =
  num_add :: "number \<Rightarrow> number \<Rightarrow> number"
  num_sub :: "number \<Rightarrow> number \<Rightarrow> number"
  num_mul :: "number \<Rightarrow> number \<Rightarrow> number"
  num_div :: "number \<Rightarrow> number \<Rightarrow> number"
  math_cos :: "number \<Rightarrow> number"
  math_sin :: "number \<Rightarrow> number"
  math_PI :: number
  coerce :: "jsval \<Rightarrow> number"

fun ToNumber :: "host \<Rightarrow> jsval \<Rightarrow> number" where
  "ToNumber h Undefined = NaN"
| "ToNumber h Null = Finite 0"
| "ToNumber h (Boolean b) = Finite (if b then 1 else 0)"
| "ToNumber h (Number n) = n"
| "ToNumber h (String s) = coerce h (String s)"
| "ToNumber h (Array xs) = coerce h (Array xs)"
| "ToNumber h (Object kvs) = coerce h (Object kvs)"

text \<open>The global \<^verbatim>\<open>isNaN\<close> and \<^verbatim>\<open>isFinite\<close> convert their argument first.\<close>

definition isNaN :: "host \<Rightarrow> jsval \<Rightarrow> bool" where
  "isNaN h v = (ToNumber h v = NaN)"

definition isFinite :: "host \<Rightarrow> jsval \<Rightarrow> bool" where
  "isFinite h v = (case ToNumber h v of Finite r \<Rightarrow> True | _ \<Rightarrow> False)"

text \<open>Unary minus flips the sign and never rounds.\<close>

fun num_neg :: "number \<Rightarrow> number" where
  "num_neg (Finite r) = Finite (- r)"
| "num_neg PosInfinity = NegInfinity"
| "num_neg NegInfinity = PosInfinity"
| "num_neg NaN = NaN"

text \<open>\<^verbatim>\<open><\<close> and \<^verbatim>\<open><=\<close> on numbers: false as soon as one side is NaN.\<close>

fun num_lt :: "number \<Rightarrow> number \<Rightarrow> bool" where
  "num_lt NaN y = False"
| "num_lt x NaN = False"
| "num_lt (Finite a) (Finite b) = (a < b)"
| "num_lt (Finite a) PosInfinity = True"
| "num_lt (Finite a) NegInfinity = False"
| "num_lt PosInfinity y = False"
| "num_lt NegInfinity NegInfinity = False"
| "num_lt NegInfinity y = True"

fun num_le :: "number \<Rightarrow> number \<Rightarrow> bool" where
  "num_le NaN y = False"
| "num_le x NaN = False"
| "num_le (Finite a) (Finite b) = (a \<le> b)"
| "num_le (Finite a) PosInfinity = True"
| "num_le (Finite a) NegInfinity = False"
| "num_le PosInfinity PosInfinity = True"
| "num_le PosInfinity y = False"
| "num_le NegInfinity y = True"

definition num_ge :: "number \<Rightarrow> number \<Rightarrow> bool" where
  "num_ge x y = num_le y x"

text \<open>
  Object spread \<^verbatim>\<open>{ ...v }\<close>: the own properties of an object, the indexed elements
  of an array or of a string, nothing for the other primitives. The key of an indexed
  element is its index in decimal.
\<close>

definition digit :: "nat \<Rightarrow> char" where
  "digit d = ''0123456789'' ! d"

fun index_key :: "nat \<Rightarrow> string" where
  "index_key n =
     (if n < 10 then [digit n] else index_key (n div 10) @ [digit (n mod 10)])"

fun spread :: "jsval \<Rightarrow> jsobj" where
  "spread (Object kvs) = kvs"
| "spread (Array xs) = zip (map index_key [0..<length xs]) xs"
| "spread (String s) = zip (map index_key [0..<length s]) (map (\<lambda>c. String [c]) s)"
| "spread v = []"

section \<open>Orbital Element Validator\<close>

text \<open>
  \<^verbatim>\<open>validateOrbitParams\<close>, lines 38-69. The result \<open>None\<close> is the source's
  \<^verbatim>\<open>null\<close>. The loop over \<^verbatim>\<open>requiredFields\<close> returns at the first field
  that fails the test; \<open>firstInvalid\<close> gives that field.
\<close>

definition requiredFields :: "string list" where
  "requiredFields = [''a'', ''e'', ''inc'', ''node'', ''peri'']"

definition fieldInvalid :: "host \<Rightarrow> jsval \<Rightarrow> bool" where
  "fieldInvalid h v = (typeof v \<noteq> ''number'' \<or> isNaN h v \<or> \<not> isFinite h v)"

primrec firstInvalid :: "host \<Rightarrow> jsobj \<Rightarrow> string list \<Rightarrow> string option" where
  "firstInvalid h sanitized [] = None"
| "firstInvalid h sanitized (field # rest) =
     (if fieldInvalid h (get_prop sanitized field) then Some field
      else firstInvalid h sanitized rest)"

definition validateOrbitParams :: "host \<Rightarrow> jsval \<Rightarrow> jsobj option" where
  "validateOrbitParams h orbitParams =
     (if \<not> truthy orbitParams then None
      else
        let sanitized = spread orbitParams in
        case firstInvalid h sanitized requiredFields of
          Some field \<Rightarrow> None
        | None \<Rightarrow>
            if num_le (ToNumber h (get_prop sanitized ''a'')) (Finite 0) then None
            else if num_lt (ToNumber h (get_prop sanitized ''e'')) (Finite 0)
                    \<or> num_ge (ToNumber h (get_prop sanitized ''e'')) (Finite 1)
            then
              (if num_ge (ToNumber h (get_prop sanitized ''e'')) (Finite 1)
               then Some (set_prop sanitized ''e'' (Number (Finite 0.999)))
               else Some sanitized)
            else Some sanitized)"

section \<open>The modules the component imports\<close>

text \<open>
  \<^verbatim>\<open>createOrbit\<close>, \<^verbatim>\<open>getOrbitPosition\<close> and
  \<^verbatim>\<open>JulianDateToTrueAnomaly\<close> come from \<^verbatim>\<open>utils/orbits.js\<close>,
  \<^verbatim>\<open>JDToMJD\<close> from \<^verbatim>\<open>utils/TimeUtils.js\<close>. The component only calls
  them, so they are parameters here: each may return any value or throw (\<open>Inl\<close>).
  \<^verbatim>\<open>createOrbit\<close> may write to the parameter object it is given (the component
  reads \<^verbatim>\<open>validParams.transformMatrix\<close> after the call), so it also returns
  that object as it is after the call. The other functions are taken to leave their
  arguments as they are.

  An orbit is the line object \<^verbatim>\<open>createOrbit\<close> returns; of it the component
  touches \<^verbatim>\<open>geometry.attributes.position.array\<close> (\<open>None\<close> when the geometry has
  no position attribute) and \<^verbatim>\<open>userData\<close>.
\<close>

datatype exn = Thrown

record orbit =
  positions :: "jsval list option"
  userData :: jsobj

record orbits =
  createOrbit :: "jsobj \<Rightarrow> jsval \<Rightarrow> jsval \<Rightarrow> exn + (orbit option \<times> jsobj)"
  getOrbitPosition :: "jsval \<Rightarrow> jsval \<Rightarrow> jsval \<Rightarrow> jsval \<Rightarrow> exn + jsval"
  JulianDateToTrueAnomaly :: "jsobj \<Rightarrow> number \<Rightarrow> exn + jsval"
  JDToMJD :: "number \<Rightarrow> number"

section \<open>Position validation\<close>

text \<open>
  Reading a property of a value that is neither \<^verbatim>\<open>undefined\<close> nor
  \<^verbatim>\<open>null\<close> (on these two the read throws; \<open>member\<close> is only applied behind a
  test that excludes them).
\<close>

fun member :: "jsval \<Rightarrow> string \<Rightarrow> jsval" where
  "member (Object kvs) k = get_prop kvs k"
| "member (Array xs) k =
     (if k = ''length'' then Number (Finite (real (length xs)))
      else get_prop (spread (Array xs)) k)"
| "member (String s) k =
     (if k = ''length'' then Number (Finite (real (length s)))
      else get_prop (spread (String s)) k)"
| "member v k = Undefined"

text \<open>\<^verbatim>\<open>validatePosition\<close>, lines 72-83.\<close>

definition validatePosition :: "host \<Rightarrow> jsval \<Rightarrow> jsval option" where
  "validatePosition h pos =
     (if \<not> truthy pos \<or> typeof pos \<noteq> ''object'' then None
      else
        let x = member pos ''x''; y = member pos ''y''; z = member pos ''z'' in
        if isNaN h x \<or> isNaN h y \<or> isNaN h z
           \<or> \<not> isFinite h x \<or> \<not> isFinite h y \<or> \<not> isFinite h z
        then None
        else Some pos)"

section \<open>Transform Basis Builder\<close>

text \<open>
  \<^verbatim>\<open>ensureTransformMatrix\<close>, lines 86-103. The function writes the matrix on the
  record it is given; the model returns the matrix together with the record after the
  call. \<^verbatim>\<open>Math.cos\<close> converts its argument to a number first. In
  \<^verbatim>\<open>-cosNode * sinPeri\<close> the unary minus applies to \<^verbatim>\<open>cosNode\<close>, and
  products and sums associate to the left.
\<close>

definition ensureTransformMatrix :: "host \<Rightarrow> jsobj \<Rightarrow> jsval \<times> jsobj" where
  "ensureTransformMatrix h orbitParams =
     (if \<not> truthy (get_prop orbitParams ''transformMatrix'') then
        let cosNode = math_cos h (ToNumber h (get_prop orbitParams ''node''));
            sinNode = math_sin h (ToNumber h (get_prop orbitParams ''node''));
            cosPeri = math_cos h (ToNumber h (get_prop orbitParams ''peri''));
            sinPeri = math_sin h (ToNumber h (get_prop orbitParams ''peri''));
            cosInc = math_cos h (ToNumber h (get_prop orbitParams ''inc''));
            sinInc = math_sin h (ToNumber h (get_prop orbitParams ''inc''));
            row1 = [num_sub h (num_mul h cosPeri cosNode)
                              (num_mul h (num_mul h cosInc sinPeri) sinNode),
                    num_sub h (num_mul h (num_neg cosNode) sinPeri)
                              (num_mul h (num_mul h cosInc cosPeri) sinNode),
                    num_mul h sinInc sinNode];
            row2 = [num_add h (num_mul h cosPeri sinNode)
                              (num_mul h (num_mul h cosInc cosNode) sinPeri),
                    num_add h (num_mul h (num_neg sinPeri) sinNode)
                              (num_mul h (num_mul h cosInc cosPeri) cosNode),
                    num_mul h (num_neg sinInc) cosNode];
            row3 = [num_mul h sinInc sinPeri, num_mul h sinInc cosPeri, cosInc];
            orbitParams' = set_prop orbitParams ''transformMatrix''
                             (Array [Array (map Number row1), Array (map Number row2),
                                     Array (map Number row3)])
        in (get_prop orbitParams' ''transformMatrix'', orbitParams')
      else (get_prop orbitParams ''transformMatrix'', orbitParams))"

text \<open>
  The matrix as the specification writes it (section 4.2), for inclination \<open>i\<close>, longitude
  of the ascending node \<open>\<Omega>\<close> and argument of periapsis \<open>\<omega>\<close>:
  row1 = (cos\<omega> cos\<Omega> - cosI sin\<omega> sin\<Omega>, -cos\<Omega> sin\<omega> - cosI cos\<omega> sin\<Omega>, sinI sin\<Omega>),
  row2 = (cos\<omega> sin\<Omega> + cosI cos\<Omega> sin\<omega>, -sin\<omega> sin\<Omega> + cosI cos\<omega> cos\<Omega>, -sinI cos\<Omega>),
  row3 = (sinI sin\<omega>, sinI cos\<omega>, cosI), each entry evaluated by the engine, a leading
  minus read as the negation of the first factor.
\<close>

definition specRow1 :: "host \<Rightarrow> number \<Rightarrow> number \<Rightarrow> number \<Rightarrow> number list" where
  "specRow1 h i \<Omega> \<omega> =
     [num_sub h (num_mul h (math_cos h \<omega>) (math_cos h \<Omega>))
                (num_mul h (num_mul h (math_cos h i) (math_sin h \<omega>)) (math_sin h \<Omega>)),
      num_sub h (num_mul h (num_neg (math_cos h \<Omega>)) (math_sin h \<omega>))
                (num_mul h (num_mul h (math_cos h i) (math_cos h \<omega>)) (math_sin h \<Omega>)),
      num_mul h (math_sin h i) (math_sin h \<Omega>)]"

definition specRow2 :: "host \<Rightarrow> number \<Rightarrow> number \<Rightarrow> number \<Rightarrow> number list" where
  "specRow2 h i \<Omega> \<omega> =
     [num_add h (num_mul h (math_cos h \<omega>) (math_sin h \<Omega>))
                (num_mul h (num_mul h (math_cos h i) (math_cos h \<Omega>)) (math_sin h \<omega>)),
      num_add h (num_mul h (num_neg (math_sin h \<omega>)) (math_sin h \<Omega>))
                (num_mul h (num_mul h (math_cos h i) (math_cos h \<omega>)) (math_cos h \<Omega>)),
      num_mul h (num_neg (math_sin h i)) (math_cos h \<Omega>)]"

definition specRow3 :: "host \<Rightarrow> number \<Rightarrow> number \<Rightarrow> number \<Rightarrow> number list" where
  "specRow3 h i \<Omega> \<omega> =
     [num_mul h (math_sin h i) (math_sin h \<omega>),
      num_mul h (math_sin h i) (math_cos h \<omega>),
      math_cos h i]"

definition specTransformBasis :: "host \<Rightarrow> number \<Rightarrow> number \<Rightarrow> number \<Rightarrow> jsval" where
  "specTransformBasis h i \<Omega> \<omega> =
     Array [Array (map Number (specRow1 h i \<Omega> \<omega>)),
            Array (map Number (specRow2 h i \<Omega> \<omega>)),
            Array (map Number (specRow3 h i \<Omega> \<omega>))]"

section \<open>Position Resolver wrapper\<close>

text \<open>\<^verbatim>\<open>getOrbitPositionSafe\<close>, lines 141-163.\<close>

definition origin :: jsval where
  "origin = Object [(''x'', Number (Finite 0)), (''y'', Number (Finite 0)),
                    (''z'', Number (Finite 0))]"

fun isArray :: "jsval \<Rightarrow> bool" where
  "isArray (Array xs) = True"
| "isArray v = False"

definition getOrbitPositionSafe ::
    "host \<Rightarrow> orbits \<Rightarrow> jsval \<Rightarrow> jsval \<Rightarrow> jsval \<Rightarrow> jsval \<Rightarrow> jsval" where
  "getOrbitPositionSafe h orb a e trueAnomaly transformMatrix =
     (if isNaN h a \<or> isNaN h e \<or> isNaN h trueAnomaly
         \<or> \<not> isFinite h a \<or> \<not> isFinite h e \<or> \<not> isFinite h trueAnomaly
      then origin
      else if \<not> truthy transformMatrix \<or> \<not> isArray transformMatrix
              \<or> member transformMatrix ''length'' \<noteq> Number (Finite 3)
      then origin
      else
        case getOrbitPosition orb a e trueAnomaly transformMatrix of
          Inl error \<Rightarrow> origin
        | Inr pos \<Rightarrow>
            (case validatePosition h pos of
               None \<Rightarrow> origin
             | Some validPos \<Rightarrow> validPos))"

section \<open>Orbit Curve Generator wrapper\<close>

text \<open>
  \<^verbatim>\<open>createOrbitSafe\<close>, lines 106-138. The loop over the coordinate array returns
  \<^verbatim>\<open>null\<close> at the first coordinate that is NaN or not finite.
\<close>

primrec hasInvalidCoordinate :: "host \<Rightarrow> jsval list \<Rightarrow> bool" where
  "hasInvalidCoordinate h [] = False"
| "hasInvalidCoordinate h (p # rest) =
     (if isNaN h p \<or> \<not> isFinite h p then True else hasInvalidCoordinate h rest)"

definition createOrbitSafe :: "host \<Rightarrow> orbits \<Rightarrow> jsval \<Rightarrow> jsval \<Rightarrow> jsval \<Rightarrow> orbit option" where
  "createOrbitSafe h orb orbitParams color points =
     (case validateOrbitParams h orbitParams of
        None \<Rightarrow> None
      | Some validParams \<Rightarrow>
          (case createOrbit orb validParams color points of
             Inl error \<Rightarrow> None
           | Inr (None, validParams') \<Rightarrow> None
           | Inr (Some orbit, validParams') \<Rightarrow>
               if (case positions orbit of
                     None \<Rightarrow> False
                   | Some ps \<Rightarrow> hasInvalidCoordinate h ps)
               then None
               else if truthy (get_prop validParams' ''transformMatrix'')
               then Some (orbit\<lparr>userData :=
                            set_prop (userData orbit) ''transformMatrix''
                              (get_prop validParams' ''transformMatrix'')\<rparr>)
               else Some orbit))"

section \<open>Bodies and the simulation state\<close>

text \<open>
  A mesh is modelled by its position vector, the only part of it the orbital core writes
  (rotation, material and texture belong to the renderer). A \<^verbatim>\<open>Body\<close> (lines
  216-230) is its name, \<^verbatim>\<open>data.orbitParams\<close> (always the object
  \<^verbatim>\<open>processedOrbitParams\<close> the initializer stored), its orbit and its mesh
  (\<open>None\<close> for \<^verbatim>\<open>null\<close>).
\<close>

type_synonym vector3 = "jsval \<times> jsval \<times> jsval"

record body =
  body_name :: string
  data_orbitParams :: jsobj
  orbitMesh :: orbit
  bodyMesh :: "vector3 option"

text \<open>
  Of a \<^verbatim>\<open>Shower\<close> (lines 233-268) the driver loop uses the mesh of the parent body
  and, for each orbit mesh, \<^verbatim>\<open>userData.parent.data.orbitParams\<close>.
\<close>

record shower =
  shower_name :: string
  orbitMeshes :: "jsobj list"
  parentBodyMesh :: "vector3 option"

text \<open>
  \<^verbatim>\<open>timeRef.current\<close> and \<^verbatim>\<open>dataRef.current\<close> (lines 294-306), and the flag
  \<^verbatim>\<open>filterConditions.shownTypes['Shower']\<close> the animation closure reads.
\<close>

record sim =
  JD :: number
  MJD :: number
  timeSpeedIndex :: int
  lastFrameTime :: jsval
  planets :: "body list"
  neos :: "body list"
  showers :: "shower list"
  shownTypes_Shower :: bool

text \<open>\<^verbatim>\<open>Body.setPosition\<close> and \<^verbatim>\<open>Shower.setPosition\<close>.\<close>

definition setPosition :: "host \<Rightarrow> body \<Rightarrow> jsval \<Rightarrow> body" where
  "setPosition h b pos =
     (case validatePosition h pos of
        None \<Rightarrow> b
      | Some validPos \<Rightarrow>
          (case bodyMesh b of
             None \<Rightarrow> b
           | Some mesh \<Rightarrow>
               b\<lparr>bodyMesh := Some (member validPos ''x'', member validPos ''y'',
                                     member validPos ''z'')\<rparr>))"

definition setShowerPosition :: "host \<Rightarrow> shower \<Rightarrow> jsval \<Rightarrow> shower" where
  "setShowerPosition h sh pos =
     (case validatePosition h pos of
        None \<Rightarrow> sh
      | Some validPos \<Rightarrow>
          (case parentBodyMesh sh of
             None \<Rightarrow> sh
           | Some mesh \<Rightarrow>
               sh\<lparr>parentBodyMesh := Some (member validPos ''x'', member validPos ''y'',
                                            member validPos ''z'')\<rparr>))"

section \<open>Simulation Clock and Driver Loop\<close>

text \<open>The speed table, line 29, and a read \<^verbatim>\<open>TIMESPEEDS[i]\<close> of it.\<close>

definition TIMESPEEDS :: "host \<Rightarrow> number list" where
  "TIMESPEEDS h =
     [num_neg (Finite 365), num_neg (Finite 30), num_neg (Finite 7), num_neg (Finite 1),
      num_div h (num_neg (Finite 3600)) (Finite 86400),
      num_div h (num_neg (Finite 60)) (Finite 86400),
      num_div h (num_neg (Finite 1)) (Finite 86400),
      num_div h (Finite 1) (Finite 86400),
      num_div h (Finite 60) (Finite 86400),
      num_div h (Finite 3600) (Finite 86400),
      Finite 1, Finite 7, Finite 30, Finite 365]"

definition TIMESPEEDS_at :: "host \<Rightarrow> int \<Rightarrow> jsval" where
  "TIMESPEEDS_at h i =
     (if 0 \<le> i \<and> i < int (length (TIMESPEEDS h)) then Number (TIMESPEEDS h ! nat i)
      else Undefined)"

text \<open>
  The body of the callback of \<^verbatim>\<open>planets.forEach\<close> (lines 1209-1250) and of
  \<^verbatim>\<open>neos.forEach\<close> (lines 1253-1283), on one body and the time value \<open>t\<close> read
  from the clock. A \<^verbatim>\<open>return\<close> or an exception caught by the callback's
  \<^verbatim>\<open>try\<close> leaves the body as it is.
\<close>

definition updateBody :: "host \<Rightarrow> orbits \<Rightarrow> number \<Rightarrow> body \<Rightarrow> body" where
  "updateBody h orb t b =
     (let orbitParams = data_orbitParams b in
      if \<not> isFinite h (Number t) \<or> isNaN h (Number t) then b
      else
        case JulianDateToTrueAnomaly orb orbitParams t of
          Inl error \<Rightarrow> b
        | Inr trueAnomaly \<Rightarrow>
            if \<not> isFinite h trueAnomaly \<or> isNaN h trueAnomaly then b
            else
              let (transformMatrix, orbitParams') = ensureTransformMatrix h orbitParams;
                  b' = b\<lparr>data_orbitParams := orbitParams'\<rparr>
              in
                if \<not> truthy transformMatrix then b'
                else setPosition h b'
                       (getOrbitPositionSafe h orb (get_prop orbitParams' ''a'')
                          (get_prop orbitParams' ''e'') trueAnomaly transformMatrix))"

text \<open>
  The callbacks read the clock from \<^verbatim>\<open>timeRef.current\<close> each time they run, so the
  loops thread the whole state: planets read \<open>JD\<close>, NEOs read \<open>MJD\<close>.
\<close>

definition updatePlanet :: "host \<Rightarrow> orbits \<Rightarrow> sim \<Rightarrow> nat \<Rightarrow> sim" where
  "updatePlanet h orb s i =
     s\<lparr>planets := (planets s)[i := updateBody h orb (JD s) (planets s ! i)]\<rparr>"

definition updateNeo :: "host \<Rightarrow> orbits \<Rightarrow> sim \<Rightarrow> nat \<Rightarrow> sim" where
  "updateNeo h orb s i =
     s\<lparr>neos := (neos s)[i := updateBody h orb (MJD s) (neos s ! i)]\<rparr>"

text \<open>
  The parent-body part of the callback of \<^verbatim>\<open>showers.forEach\<close> (lines 1293-1311);
  the colours of the orbit meshes, set after it, are render state.
\<close>

definition updateShowerParent :: "host \<Rightarrow> orbits \<Rightarrow> number \<Rightarrow> shower \<Rightarrow> shower" where
  "updateShowerParent h orb t sh =
     (case (parentBodyMesh sh, orbitMeshes sh) of
        (Some mesh, parentOrbitParams # others) \<Rightarrow>
          (case JulianDateToTrueAnomaly orb parentOrbitParams t of
             Inl error \<Rightarrow> sh
           | Inr parentTrueAnomaly \<Rightarrow>
               if isFinite h parentTrueAnomaly \<and> \<not> isNaN h parentTrueAnomaly then
                 let (parentTransformMatrix, parentOrbitParams') =
                       ensureTransformMatrix h parentOrbitParams;
                     sh' = sh\<lparr>orbitMeshes := parentOrbitParams' # others\<rparr>
                 in
                   if truthy parentTransformMatrix
                   then setShowerPosition h sh'
                          (getOrbitPositionSafe h orb (get_prop parentOrbitParams' ''a'')
                             (get_prop parentOrbitParams' ''e'') parentTrueAnomaly
                             parentTransformMatrix)
                   else sh'
               else sh)
      | _ \<Rightarrow> sh)"

definition updateShower :: "host \<Rightarrow> orbits \<Rightarrow> sim \<Rightarrow> nat \<Rightarrow> sim" where
  "updateShower h orb s i =
     (if shownTypes_Shower s
      then s\<lparr>showers := (showers s)[i := updateShowerParent h orb (JD s) (showers s ! i)]\<rparr>
      else s)"

definition updateShowers :: "host \<Rightarrow> orbits \<Rightarrow> sim \<Rightarrow> sim" where
  "updateShowers h orb s =
     (case find (\<lambda>p. body_name p = ''Earth'') (planets s) of
        None \<Rightarrow> s
      | Some earthPlanet \<Rightarrow>
          (case JulianDateToTrueAnomaly orb (data_orbitParams earthPlanet) (JD s) of
             Inl error \<Rightarrow> s
           | Inr earthTrueAnomaly \<Rightarrow>
               if isFinite h earthTrueAnomaly \<and> \<not> isNaN h earthTrueAnomaly
               then foldl (updateShower h orb) s [0..<length (showers s)]
               else s))"

text \<open>
  \<^verbatim>\<open>animate\<close>, lines 1176-1373, without the calls into the renderer (sun and planet
  rotation, the time display, \<^verbatim>\<open>renderer.render\<close>). \<open>time\<close> is the timestamp the
  browser passes to the callback.
\<close>

definition animate :: "host \<Rightarrow> orbits \<Rightarrow> number \<Rightarrow> sim \<Rightarrow> sim" where
  "animate h orb time s =
     (let deltaTime =
            num_sub h time
              (ToNumber h (if truthy (lastFrameTime s) then lastFrameTime s
                           else Number (Finite 0)))
      in
        if num_lt deltaTime (Finite 16.67) then s
        else
          let s1 = s\<lparr>lastFrameTime := Number time\<rparr>;
              deltaJulian =
                num_div h
                  (num_mul h deltaTime (ToNumber h (TIMESPEEDS_at h (timeSpeedIndex s1))))
                  (Finite 1000)
          in
            if \<not> isFinite h (Number deltaJulian) \<or> isNaN h (Number deltaJulian) then s1
            else
              let s2 = s1\<lparr>JD := num_add h (JD s1) deltaJulian,
                          MJD := num_add h (MJD s1) deltaJulian\<rparr>;
                  s3 = foldl (updatePlanet h orb) s2 [0..<length (planets s2)];
                  s4 = foldl (updateNeo h orb) s3 [0..<length (neos s3)]
              in updateShowers h orb s4)"

text \<open>
  \<^verbatim>\<open>handleTimeControl\<close>, lines 1408-1431. \<open>now\<close> is the value of
  \<^verbatim>\<open>Date.now()\<close> when the action runs.
\<close>

definition handleTimeControl :: "host \<Rightarrow> orbits \<Rightarrow> number \<Rightarrow> string \<Rightarrow> sim \<Rightarrow> sim" where
  "handleTimeControl h orb now action s =
     (if action = ''fastbackward'' then
        (if timeSpeedIndex s > 0 then s\<lparr>timeSpeedIndex := timeSpeedIndex s - 1\<rparr> else s)
      else if action = ''backward'' then s\<lparr>timeSpeedIndex := 6\<rparr>
      else if action = ''now'' then
        (let s1 = s\<lparr>timeSpeedIndex := 7\<rparr>;
             currentJD = num_add h (num_div h now (Finite 86400000)) (Finite 2440587.5)
         in if isFinite h (Number currentJD) \<and> \<not> isNaN h (Number currentJD)
            then s1\<lparr>JD := currentJD, MJD := JDToMJD orb currentJD\<rparr>
            else s1)
      else if action = ''forward'' then s\<lparr>timeSpeedIndex := 7\<rparr>
      else if action = ''fastforward'' then
        (if timeSpeedIndex s < int (length (TIMESPEEDS h)) - 1
         then s\<lparr>timeSpeedIndex := timeSpeedIndex s + 1\<rparr> else s)
      else s)"

section \<open>Body initializers\<close>

text \<open>
  \<^verbatim>\<open>initializeNeos\<close> (lines 621-669) and \<^verbatim>\<open>initializePlanets\<close> (lines
  534-619), on the entries of the loaded JSON object. Reading a property of
  \<^verbatim>\<open>undefined\<close> or \<^verbatim>\<open>null\<close> throws and ends the initializer; the bodies
  pushed before stay in the array \<open>bodies\<close>
  (\<^verbatim>\<open>dataRef.current.neos\<close>, \<^verbatim>\<open>dataRef.current.planets\<close>).
\<close>

definition DEG_TO_RAD :: "host \<Rightarrow> number" where
  "DEG_TO_RAD h = num_div h (math_PI h) (Finite 180)"

definition ORBIT_MESH_POINTS :: jsval where
  "ORBIT_MESH_POINTS = Number (Finite 192)"

definition NEO_ORBIT_COLOR :: jsval where
  "NEO_ORBIT_COLOR = Number (Finite 13434880)"

definition MAX_VISIBLE_NEOS :: nat where
  "MAX_VISIBLE_NEOS = 999"

fun nullish :: "jsval \<Rightarrow> bool" where
  "nullish Undefined = True"
| "nullish Null = True"
| "nullish v = False"

text \<open>\<^verbatim>\<open>obj[k] *= c\<close>.\<close>

definition mulAssign :: "host \<Rightarrow> jsobj \<Rightarrow> string \<Rightarrow> number \<Rightarrow> jsobj" where
  "mulAssign h obj k c = set_prop obj k (Number (num_mul h (ToNumber h (get_prop obj k)) c))"

text \<open>The copy of the raw record with its four angles converted, lines 551-555 and 639-643.\<close>

definition processedOrbitParams :: "host \<Rightarrow> jsval \<Rightarrow> jsobj" where
  "processedOrbitParams h orbitParams =
     (let p0 = spread orbitParams;
          p1 = mulAssign h p0 ''inc'' (DEG_TO_RAD h);
          p2 = mulAssign h p1 ''node'' (DEG_TO_RAD h);
          p3 = mulAssign h p2 ''peri'' (DEG_TO_RAD h)
      in mulAssign h p3 ''ma'' (DEG_TO_RAD h))"

text \<open>The mesh placed at true anomaly 0 and the \<^verbatim>\<open>Body\<close> built around it.\<close>

definition newBody :: "host \<Rightarrow> orbits \<Rightarrow> string \<Rightarrow> jsobj \<Rightarrow> orbit \<Rightarrow> body" where
  "newBody h orb name processed orbit =
     (let pos = getOrbitPositionSafe h orb (get_prop processed ''a'') (get_prop processed ''e'')
                  (Number (Finite 0)) (get_prop processed ''transformMatrix'')
      in \<lparr>body_name = name, data_orbitParams = processed, orbitMesh = orbit,
          bodyMesh = Some (member pos ''x'', member pos ''y'', member pos ''z'')\<rparr>)"

fun initializeNeos ::
    "host \<Rightarrow> orbits \<Rightarrow> (string \<times> jsval) list \<Rightarrow> nat \<Rightarrow> body list \<Rightarrow> body list" where
  "initializeNeos h orb [] i bodies = bodies"
| "initializeNeos h orb ((neoName, neoData) # rest) i bodies =
     (if nullish neoData then bodies
      else
        let orbitParams = member neoData ''orbitParams'' in
        if validateOrbitParams h orbitParams = None then initializeNeos h orb rest i bodies
        else
          let processed = processedOrbitParams h orbitParams in
          case createOrbitSafe h orb (Object processed) NEO_ORBIT_COLOR ORBIT_MESH_POINTS of
            None \<Rightarrow> initializeNeos h orb rest i bodies
          | Some orbit \<Rightarrow>
              if i + 1 = MAX_VISIBLE_NEOS
              then bodies @ [newBody h orb neoName processed orbit]
              else initializeNeos h orb rest (i + 1)
                     (bodies @ [newBody h orb neoName processed orbit]))"

fun initializePlanets ::
    "host \<Rightarrow> orbits \<Rightarrow> (string \<times> jsval) list \<Rightarrow> body list \<Rightarrow> body list" where
  "initializePlanets h orb [] bodies = bodies"
| "initializePlanets h orb ((planetName, planetData) # rest) bodies =
     (if nullish planetData then bodies
      else
        let orbitParams = member planetData ''orbitParams'' in
        if validateOrbitParams h orbitParams = None then initializePlanets h orb rest bodies
        else
          let processed = processedOrbitParams h orbitParams in
          if nullish (member planetData ''renderParams'') then bodies
          else
            case createOrbitSafe h orb (Object processed)
                   (member (member planetData ''renderParams'') ''color'') ORBIT_MESH_POINTS of
              None \<Rightarrow> initializePlanets h orb rest bodies
            | Some orbit \<Rightarrow>
                if nullish (member planetData ''extraParams'') then bodies
                else initializePlanets h orb rest
                       (bodies @ [newBody h orb planetName processed orbit]))"

section \<open>An engine and an orbit module to run the model on\<close>

text \<open>
  The theorems below hold for every engine and every orbit module. To run the model on
  concrete inputs, \<open>exact_host\<close> computes without rounding (exact on finite operands, the
  usual rules on infinities and NaN, a string, array or object converts to NaN).
\<close>

fun exact_add :: "number \<Rightarrow> number \<Rightarrow> number" where
  "exact_add NaN y = NaN"
| "exact_add x NaN = NaN"
| "exact_add (Finite a) (Finite b) = Finite (a + b)"
| "exact_add (Finite a) y = y"
| "exact_add PosInfinity NegInfinity = NaN"
| "exact_add NegInfinity PosInfinity = NaN"
| "exact_add x y = x"

definition exact_sub :: "number \<Rightarrow> number \<Rightarrow> number" where
  "exact_sub x y = exact_add x (num_neg y)"

fun sign_of :: "number \<Rightarrow> int" where
  "sign_of (Finite a) = (if a < 0 then - 1 else if a = 0 then 0 else 1)"
| "sign_of PosInfinity = 1"
| "sign_of NegInfinity = - 1"
| "sign_of NaN = 0"

definition signed_infinity :: "int \<Rightarrow> number" where
  "signed_infinity k = (if k = 0 then NaN else if k < 0 then NegInfinity else PosInfinity)"

fun exact_mul :: "number \<Rightarrow> number \<Rightarrow> number" where
  "exact_mul NaN y = NaN"
| "exact_mul x NaN = NaN"
| "exact_mul (Finite a) (Finite b) = Finite (a * b)"
| "exact_mul x y = signed_infinity (sign_of x * sign_of y)"

fun exact_div :: "number \<Rightarrow> number \<Rightarrow> number" where
  "exact_div NaN y = NaN"
| "exact_div x NaN = NaN"
| "exact_div (Finite a) (Finite b) =
     (if b = 0 then signed_infinity (sign_of (Finite a)) else Finite (a / b))"
| "exact_div (Finite a) y = Finite 0"
| "exact_div x (Finite b) = signed_infinity (sign_of x * (if b < 0 then - 1 else 1))"
| "exact_div x y = NaN"

fun exact_cos :: "number \<Rightarrow> number" where
  "exact_cos (Finite a) = Finite (cos a)"
| "exact_cos x = NaN"

fun exact_sin :: "number \<Rightarrow> number" where
  "exact_sin (Finite a) = Finite (sin a)"
| "exact_sin x = NaN"

definition exact_host :: host where
  "exact_host =
     \<lparr>num_add = exact_add, num_sub = exact_sub, num_mul = exact_mul, num_div = exact_div,
      math_cos = exact_cos, math_sin = exact_sin, math_PI = Finite pi,
      coerce = (\<lambda>v. NaN)\<rparr>"

text \<open>
  Modelled from the spec: \<^verbatim>\<open>getOrbitPosition\<close> of \<^verbatim>\<open>utils/orbits.js\<close>, which is
  not among the sources. Section 4.4: r = a (1 - e e) / (1 + e cos \<nu>), orbit-plane
  coordinates (r cos \<nu>, r sin \<nu>), world position the transform basis applied to
  (x', y', 0).
\<close>

definition entry :: "host \<Rightarrow> jsval \<Rightarrow> string \<Rightarrow> string \<Rightarrow> number" where
  "entry h m i j = ToNumber h (member (member m i) j)"

definition spec_getOrbitPosition ::
    "host \<Rightarrow> jsval \<Rightarrow> jsval \<Rightarrow> jsval \<Rightarrow> jsval \<Rightarrow> exn + jsval" where
  "spec_getOrbitPosition h a e \<nu> m =
     (let r = num_div h
                (num_mul h (ToNumber h a)
                   (num_sub h (Finite 1) (num_mul h (ToNumber h e) (ToNumber h e))))
                (num_add h (Finite 1) (num_mul h (ToNumber h e) (math_cos h (ToNumber h \<nu>))));
          x' = num_mul h r (math_cos h (ToNumber h \<nu>));
          y' = num_mul h r (math_sin h (ToNumber h \<nu>))
      in Inr (Object
           [(''x'', Number (num_add h (num_mul h (entry h m ''0'' ''0'') x')
                                      (num_mul h (entry h m ''0'' ''1'') y'))),
            (''y'', Number (num_add h (num_mul h (entry h m ''1'' ''0'') x')
                                      (num_mul h (entry h m ''1'' ''1'') y'))),
            (''z'', Number (num_add h (num_mul h (entry h m ''2'' ''0'') x')
                                      (num_mul h (entry h m ''2'' ''1'') y')))]))"

text \<open>
  Modelled from the spec: \<^verbatim>\<open>createOrbit\<close> of \<^verbatim>\<open>utils/orbits.js\<close>, not among the
  sources. Section 4.5 samples the Position Resolver over the true anomaly; this small
  instance samples periapsis and apoapsis only (\<nu> = 0 and \<nu> = \<pi>), and caches the
  transform basis on the record it is given, as section 9 says the source does.
\<close>

definition coordinates :: "exn + jsval \<Rightarrow> jsval list" where
  "coordinates r =
     (case r of Inl error \<Rightarrow> []
      | Inr pos \<Rightarrow> [member pos ''x'', member pos ''y'', member pos ''z''])"

definition spec_createOrbit ::
    "host \<Rightarrow> jsobj \<Rightarrow> jsval \<Rightarrow> jsval \<Rightarrow> exn + (orbit option \<times> jsobj)" where
  "spec_createOrbit h orbitParams color points =
     (let (m, orbitParams') = ensureTransformMatrix h orbitParams;
          a = get_prop orbitParams' ''a'';
          e = get_prop orbitParams' ''e''
      in Inr (Some \<lparr>positions =
                      Some (coordinates (spec_getOrbitPosition h a e (Number (Finite 0)) m)
                            @ coordinates (spec_getOrbitPosition h a e (Number (Finite pi)) m)),
                    userData = []\<rparr>,
              orbitParams'))"

text \<open>
  A stand-in for the Anomaly Solver \<^verbatim>\<open>JulianDateToTrueAnomaly\<close> (not among the
  sources): the body stays at the anomaly stored in the field \<^verbatim>\<open>ma\<close> of its record,
  whatever the time. It only serves to run the driver loop on concrete bodies.
\<close>

definition fixedAnomaly :: "jsobj \<Rightarrow> number \<Rightarrow> exn + jsval" where
  "fixedAnomaly orbitParams t = Inr (get_prop orbitParams ''ma'')"

definition sample_orbits :: orbits where
  "sample_orbits =
     \<lparr>createOrbit = spec_createOrbit exact_host,
      getOrbitPosition = spec_getOrbitPosition exact_host,
      JulianDateToTrueAnomaly = fixedAnomaly,
      JDToMJD = (\<lambda>jd. exact_sub jd (Finite 2400000.5))\<rparr>"

section \<open>Vocabulary of the properties\<close>

text \<open>A value that is a finite number.\<close>

fun finiteNumber :: "jsval \<Rightarrow> bool" where
  "finiteNumber (Number (Finite r)) = True"
| "finiteNumber v = False"

text \<open>
  The two deltas \<^verbatim>\<open>animate\<close> computes at a tick: \<^verbatim>\<open>deltaTime\<close>, the
  wall-clock time since the last accepted frame, and \<^verbatim>\<open>deltaJulian\<close>, the days the
  clock is to advance by.
\<close>

definition frameDelta :: "host \<Rightarrow> number \<Rightarrow> sim \<Rightarrow> number" where
  "frameDelta h time s =
     num_sub h time
       (ToNumber h (if truthy (lastFrameTime s) then lastFrameTime s else Number (Finite 0)))"

definition julianDelta :: "host \<Rightarrow> number \<Rightarrow> sim \<Rightarrow> number" where
  "julianDelta h time s =
     num_div h
       (num_mul h (frameDelta h time s) (ToNumber h (TIMESPEEDS_at h (timeSpeedIndex s))))
       (Finite 1000)"


text \<open>
  A body was built by an initializer from one of the entries: it carries the name of the
  entry, the raw record of the entry passed validation, and its stored record is the
  converted copy of that raw record.
\<close>

definition builtFrom :: "host \<Rightarrow> (string \<times> jsval) list \<Rightarrow> body \<Rightarrow> bool" where
  "builtFrom h entries b =
     (\<exists>(name, data) \<in> set entries.
        body_name b = name
        \<and> validateOrbitParams h (member data ''orbitParams'') \<noteq> None
        \<and> data_orbitParams b = processedOrbitParams h (member data ''orbitParams''))"



text \<open>
  An entry of the planet data whose \<^verbatim>\<open>renderParams\<close> and \<^verbatim>\<open>extraParams\<close> can be
  read, so that \<^verbatim>\<open>initializePlanets\<close> does not throw on it.
\<close>

definition planetEntryComplete :: "jsval \<Rightarrow> bool" where
  "planetEntryComplete planetData =
     (\<not> nullish planetData \<and> \<not> nullish (member planetData ''renderParams'')
      \<and> \<not> nullish (member planetData ''extraParams''))"

section \<open>Sample data\<close>

definition circularOrbit :: jsobj where
  "circularOrbit =
     [(''a'', Number (Finite 1)), (''e'', Number (Finite 0)), (''inc'', Number (Finite 0)),
      (''node'', Number (Finite 0)), (''peri'', Number (Finite 0)), (''ma'', Number (Finite 0))]"

definition identityMatrix :: jsval where
  "identityMatrix =
     Array [Array [Number (Finite 1), Number (Finite 0), Number (Finite 0)],
            Array [Number (Finite 0), Number (Finite 1), Number (Finite 0)],
            Array [Number (Finite 0), Number (Finite 0), Number (Finite 1)]]"

text \<open>The same orbit once its transform basis is cached on it.\<close>

definition circularOrbitCached :: jsobj where
  "circularOrbitCached = circularOrbit @ [(''transformMatrix'', identityMatrix)]"

text \<open>A record with a negative semi-major axis, and one with a negative eccentricity.\<close>

definition negativeAxis :: jsobj where
  "negativeAxis =
     [(''a'', Number (Finite (- 5))), (''e'', Number (Finite 0)), (''inc'', Number (Finite 0)),
      (''node'', Number (Finite 0)), (''peri'', Number (Finite 0))]"

definition negativeEccentricity :: jsobj where
  "negativeEccentricity =
     [(''a'', Number (Finite 1)), (''e'', Number (Finite (- 0.5))), (''inc'', Number (Finite 0)),
      (''node'', Number (Finite 0)), (''peri'', Number (Finite 0))]"

definition sampleOrbit :: orbit where
  "sampleOrbit = \<lparr>positions = None, userData = []\<rparr>"

definition sampleBody :: "string \<Rightarrow> jsobj \<Rightarrow> body" where
  "sampleBody name orbitParams =
     \<lparr>body_name = name, data_orbitParams = orbitParams, orbitMesh = sampleOrbit,
      bodyMesh = Some (Number (Finite 5), Number (Finite 5), Number (Finite 5))\<rparr>"

text \<open>
  The position of the circular orbit at its periapsis, and the position the resolver
  computes for a parabolic orbit (e = 1) opposite the periapsis, where r = 0 / 0.
\<close>

definition periapsisPosition :: jsval where
  "periapsisPosition =
     Object [(''x'', Number (Finite 1)), (''y'', Number (Finite 0)), (''z'', Number (Finite 0))]"

definition undefinedPosition :: jsval where
  "undefinedPosition = Object [(''x'', Number NaN), (''y'', Number NaN), (''z'', Number NaN)]"

text \<open>
  A record whose anomaly cannot be computed, bodies before and after one update, and a
  simulation state with two planets, two NEOs and one shower.
\<close>

definition stalledOrbit :: jsobj where
  "stalledOrbit =
     [(''a'', Number (Finite 1)), (''e'', Number (Finite 0)), (''inc'', Number (Finite 0)),
      (''node'', Number (Finite 0)), (''peri'', Number (Finite 0)), (''ma'', Number NaN)]"

definition movedBody :: "string \<Rightarrow> body" where
  "movedBody name =
     \<lparr>body_name = name, data_orbitParams = circularOrbitCached, orbitMesh = sampleOrbit,
      bodyMesh = Some (Number (Finite 1), Number (Finite 0), Number (Finite 0))\<rparr>"

definition sampleShower :: shower where
  "sampleShower =
     \<lparr>shower_name = ''Perseids'', orbitMeshes = [circularOrbit],
      parentBodyMesh = Some (Number (Finite 5), Number (Finite 5), Number (Finite 5))\<rparr>"

definition movedShower :: shower where
  "movedShower =
     \<lparr>shower_name = ''Perseids'', orbitMeshes = [circularOrbitCached],
      parentBodyMesh = Some (Number (Finite 1), Number (Finite 0), Number (Finite 0))\<rparr>"

definition sampleSim :: sim where
  "sampleSim =
     \<lparr>JD = Finite 2460000, MJD = Finite 60000, timeSpeedIndex = 10, lastFrameTime = Undefined,
      planets = [sampleBody ''Comet'' stalledOrbit, sampleBody ''Earth'' circularOrbit],
      neos = [sampleBody ''Apophis'' stalledOrbit, sampleBody ''Bennu'' circularOrbit],
      showers = [sampleShower], shownTypes_Shower = True\<rparr>"

text \<open>The sample state after the tick at time 1000 ms: one day later.\<close>

definition sampleSimAfter :: sim where
  "sampleSimAfter =
     \<lparr>JD = Finite 2460001, MJD = Finite 60001, timeSpeedIndex = 10,
      lastFrameTime = Number (Finite 1000),
      planets = [sampleBody ''Comet'' stalledOrbit, movedBody ''Earth''],
      neos = [sampleBody ''Apophis'' stalledOrbit, movedBody ''Bennu''],
      showers = [movedShower], shownTypes_Shower = True\<rparr>"

text \<open>
  A record with eccentricity -1, for which the resolver divides 0 by 0 at the periapsis, and
  the curve of the circular orbit through its periapsis and apoapsis.
\<close>

definition flippedOrbit :: jsobj where
  "flippedOrbit =
     [(''a'', Number (Finite 1)), (''e'', Number (Finite (- 1))), (''inc'', Number (Finite 0)),
      (''node'', Number (Finite 0)), (''peri'', Number (Finite 0))]"

definition circularCurve :: orbit where
  "circularCurve =
     \<lparr>positions = Some [Number (Finite 1), Number (Finite 0), Number (Finite 0),
                        Number (Finite (- 1)), Number (Finite 0), Number (Finite 0)],
      userData = [(''transformMatrix'', identityMatrix)]\<rparr>"

text \<open>
  A hyperbolic record (e = 1.5), the copy the validator returns for it, the entry of the
  NEO data that carries it, the curve drawn for it and the body built from it.
\<close>

definition hyperbolicOrbit :: jsobj where
  "hyperbolicOrbit =
     [(''a'', Number (Finite 1)), (''e'', Number (Finite 1.5)), (''inc'', Number (Finite 0)),
      (''node'', Number (Finite 0)), (''peri'', Number (Finite 0)), (''ma'', Number (Finite 0))]"

definition clampedOrbit :: jsobj where
  "clampedOrbit =
     [(''a'', Number (Finite 1)), (''e'', Number (Finite 0.999)), (''inc'', Number (Finite 0)),
      (''node'', Number (Finite 0)), (''peri'', Number (Finite 0)), (''ma'', Number (Finite 0))]"

definition interstellar :: "string \<times> jsval" where
  "interstellar = (''Oumuamua'', Object [(''orbitParams'', Object hyperbolicOrbit)])"

definition clampedCurve :: orbit where
  "clampedCurve =
     \<lparr>positions = Some [Number (Finite 0.001), Number (Finite 0), Number (Finite 0),
                        Number (Finite (- 1.999)), Number (Finite 0), Number (Finite 0)],
      userData = [(''transformMatrix'', identityMatrix)]\<rparr>"

definition hyperbolicBody :: body where
  "hyperbolicBody =
     \<lparr>body_name = ''Oumuamua'', data_orbitParams = hyperbolicOrbit, orbitMesh = clampedCurve,
      bodyMesh = Some (Number (Finite 0), Number (Finite 0), Number (Finite 0))\<rparr>"




text \<open>
  Entries of the data files: one whose record is rejected (a = -5), and the hyperbolic
  record as a planet entry.
\<close>

definition ghost :: "string \<times> jsval" where
  "ghost =
     (''Ghost'',
      Object [(''orbitParams'', Object negativeAxis),
              (''renderParams'', Object [(''color'', Number (Finite 255))]),
              (''extraParams'', Object [])])"

definition interstellarPlanet :: "string \<times> jsval" where
  "interstellarPlanet =
     (''Oumuamua'',
      Object [(''orbitParams'', Object hyperbolicOrbit),
              (''renderParams'', Object [(''color'', Number (Finite 255))]),
              (''extraParams'', Object [])])"

section \<open>Properties of the validator\<close>

lemma finiteNumber_iff: "finiteNumber v \<longleftrightarrow> (\<exists>r. v = Number (Finite r))"
  by (cases v rule: finiteNumber.cases) simp_all

lemma fieldInvalid_iff: "fieldInvalid h v \<longleftrightarrow> \<not> finiteNumber v"
proof (cases v)
  case (Number n)
  then show ?thesis by (cases n) (simp_all add: fieldInvalid_def isNaN_def isFinite_def)
qed (simp_all add: fieldInvalid_def)

lemma firstInvalid_None_iff:
  "firstInvalid h s fs = None \<longleftrightarrow> (\<forall>f \<in> set fs. finiteNumber (get_prop s f))"
  by (induction fs) (simp_all add: fieldInvalid_iff)

lemma get_set_prop: "get_prop (set_prop obj k v) k2 = (if k2 = k then v else get_prop obj k2)"
  by (simp add: get_prop_def set_prop_def update_conv')

lemma get_prop_Nil: "get_prop [] k = Undefined"
  by (simp add: get_prop_def)

lemma get_prop_Cons: "get_prop ((k, v) # kvs) k2 = (if k2 = k then v else get_prop kvs k2)"
  by (simp add: get_prop_def)

text \<open>On an object the validator is a decision on the five required fields.\<close>

lemma validate_Object:
  "validateOrbitParams h (Object r) =
     (if (\<forall>f \<in> set requiredFields. finiteNumber (get_prop r f)) then
        (if num_le (ToNumber h (get_prop r ''a'')) (Finite 0) then None
         else if num_ge (ToNumber h (get_prop r ''e'')) (Finite 1)
              then Some (set_prop r ''e'' (Number (Finite 0.999)))
              else Some r)
      else None)"
proof (cases "firstInvalid h r requiredFields")
  case None
  then show ?thesis
    using firstInvalid_None_iff [of h r requiredFields]
    by (simp add: validateOrbitParams_def)
next
  case (Some f)
  then show ?thesis
    using firstInvalid_None_iff [of h r requiredFields]
    by (simp add: validateOrbitParams_def)
qed

text \<open>
  C2. For every object \<open>r\<close>, \<^verbatim>\<open>validateOrbitParams\<close> returns
  \<^verbatim>\<open>null\<close> exactly when one of the fields a, e, inc, node, peri is not a finite
  number or the semi-major axis is at most 0. In every other case it returns a record,
  which agrees with \<open>r\<close> on every property but the eccentricity. The function is total:
  no input makes it throw.
\<close>

theorem validateOrbitParams_rejects_iff:
  "(validateOrbitParams h (Object r) = None \<longleftrightarrow>
      \<not> finiteNumber (get_prop r ''a'') \<or> \<not> finiteNumber (get_prop r ''e'')
      \<or> \<not> finiteNumber (get_prop r ''inc'') \<or> \<not> finiteNumber (get_prop r ''node'')
      \<or> \<not> finiteNumber (get_prop r ''peri'')
      \<or> (\<exists>x. get_prop r ''a'' = Number (Finite x) \<and> x \<le> 0))
   \<and> (validateOrbitParams h (Object r) \<noteq> None \<longrightarrow>
        (\<exists>s. validateOrbitParams h (Object r) = Some s
             \<and> (\<forall>k. k \<noteq> ''e'' \<longrightarrow> get_prop s k = get_prop r k)))"
  unfolding validate_Object
  by (auto simp add: requiredFields_def get_set_prop finiteNumber_iff)

theorem validateOrbitParams_rejects_iff_witness:
  "validateOrbitParams exact_host (Object circularOrbit) \<noteq> None
   \<and> (\<exists>s. validateOrbitParams exact_host (Object circularOrbit) = Some s
          \<and> (\<forall>k. k \<noteq> ''e'' \<longrightarrow> get_prop s k = get_prop circularOrbit k))
   \<and> get_prop negativeAxis ''a'' = Number (Finite (- 5))
   \<and> validateOrbitParams exact_host (Object negativeAxis) = None"
proof -
  have fields: "finiteNumber (get_prop circularOrbit ''a'')"
    "finiteNumber (get_prop circularOrbit ''e'')" "finiteNumber (get_prop circularOrbit ''inc'')"
    "finiteNumber (get_prop circularOrbit ''node'')"
    "finiteNumber (get_prop circularOrbit ''peri'')"
    "get_prop circularOrbit ''a'' = Number (Finite 1)"
    by (simp_all add: circularOrbit_def get_prop_def)
  have axis: "get_prop negativeAxis ''a'' = Number (Finite (- 5))"
    by (simp add: negativeAxis_def get_prop_def)
  show ?thesis
    using fields axis validateOrbitParams_rejects_iff [of exact_host circularOrbit]
      validateOrbitParams_rejects_iff [of exact_host negativeAxis]
    by simp
qed

text \<open>
  C3. The claim asks that no accepted record carries an eccentricity outside [0, 1). On
  the record a = 1, e = -0.5 the validator takes the branch that warns
  \<^verbatim>\<open>'Eccentricity must be between 0 and 1'\<close> and then returns the record as it is:
  the clamp inside that branch only covers e \<ge> 1, so the eccentricity of the returned
  record is -0.5.
\<close>

theorem validateOrbitParams_negative_eccentricity:
  "validateOrbitParams h (Object negativeEccentricity) = Some negativeEccentricity
   \<and> get_prop negativeEccentricity ''e'' = Number (Finite (- 0.5))
   \<and> num_lt (ToNumber h (get_prop negativeEccentricity ''e'')) (Finite 0)"
  by (simp add: validate_Object requiredFields_def negativeEccentricity_def get_prop_def
        num_ge_def)

section \<open>Properties of the Transform Basis Builder\<close>

text \<open>
  C1. On a record whose inclination, node and periapsis are finite numbers and that has no
  cached matrix, \<^verbatim>\<open>ensureTransformMatrix\<close> returns the matrix of the three row
  formulas of the specification and stores it on the record; any other record with the same
  three angles and no cache gives the same matrix; a second call on the record, whatever
  the engine then computes, returns the stored matrix and leaves the record as it is. On
  any record that carries a matrix, the call returns that matrix and changes nothing.
\<close>

theorem ensureTransformMatrix_spec:
  "(get_prop p ''inc'' = Number (Finite i) \<and> get_prop p ''node'' = Number (Finite \<Omega>)
      \<and> get_prop p ''peri'' = Number (Finite \<omega>) \<and> \<not> truthy (get_prop p ''transformMatrix'')
    \<longrightarrow> ensureTransformMatrix h p =
          (specTransformBasis h (Finite i) (Finite \<Omega>) (Finite \<omega>),
           set_prop p ''transformMatrix''
             (specTransformBasis h (Finite i) (Finite \<Omega>) (Finite \<omega>)))
        \<and> (\<forall>q. get_prop q ''inc'' = Number (Finite i) \<and> get_prop q ''node'' = Number (Finite \<Omega>)
              \<and> get_prop q ''peri'' = Number (Finite \<omega>)
              \<and> \<not> truthy (get_prop q ''transformMatrix'')
             \<longrightarrow> fst (ensureTransformMatrix h q) = fst (ensureTransformMatrix h p))
        \<and> (\<forall>h'. ensureTransformMatrix h' (snd (ensureTransformMatrix h p)) =
                   (fst (ensureTransformMatrix h p), snd (ensureTransformMatrix h p))))
   \<and> (truthy (get_prop p ''transformMatrix'')
        \<longrightarrow> ensureTransformMatrix h p = (get_prop p ''transformMatrix'', p))"
  by (auto simp add: ensureTransformMatrix_def specTransformBasis_def specRow1_def specRow2_def
        specRow3_def get_set_prop Let_def)

lemma exact_host_fields:
  "num_add exact_host = exact_add" "num_sub exact_host = exact_sub"
  "num_mul exact_host = exact_mul" "num_div exact_host = exact_div"
  "math_cos exact_host = exact_cos" "math_sin exact_host = exact_sin"
  "math_PI exact_host = Finite pi"
  by (simp_all add: exact_host_def)

lemma spec_identity:
  "specTransformBasis exact_host (Finite 0) (Finite 0) (Finite 0) = identityMatrix"
  by (simp add: specTransformBasis_def specRow1_def specRow2_def specRow3_def exact_host_def
        exact_sub_def identityMatrix_def)

theorem ensureTransformMatrix_spec_witness:
  "get_prop circularOrbit ''inc'' = Number (Finite 0)
   \<and> get_prop circularOrbit ''node'' = Number (Finite 0)
   \<and> get_prop circularOrbit ''peri'' = Number (Finite 0)
   \<and> \<not> truthy (get_prop circularOrbit ''transformMatrix'')
   \<and> ensureTransformMatrix exact_host circularOrbit = (identityMatrix, circularOrbitCached)
   \<and> truthy (get_prop circularOrbitCached ''transformMatrix'')
   \<and> ensureTransformMatrix exact_host circularOrbitCached = (identityMatrix, circularOrbitCached)"
proof -
  have angles: "get_prop circularOrbit ''inc'' = Number (Finite 0)"
    "get_prop circularOrbit ''node'' = Number (Finite 0)"
    "get_prop circularOrbit ''peri'' = Number (Finite 0)"
    "\<not> truthy (get_prop circularOrbit ''transformMatrix'')"
    by (simp_all add: circularOrbit_def get_prop_def)
  have upd: "set_prop circularOrbit ''transformMatrix'' identityMatrix = circularOrbitCached"
    by (simp add: circularOrbit_def circularOrbitCached_def set_prop_def)
  have cached: "get_prop circularOrbitCached ''transformMatrix'' = identityMatrix"
    by (simp add: circularOrbit_def circularOrbitCached_def get_prop_def)
  have t: "truthy identityMatrix"
    by (simp add: identityMatrix_def)
  show ?thesis
    using angles upd cached t
      ensureTransformMatrix_spec [of circularOrbit 0 0 0 exact_host]
      ensureTransformMatrix_spec [of circularOrbitCached 0 0 0 exact_host]
    by (simp add: spec_identity)
qed

text \<open>
  With exact arithmetic the entries are the real numbers of the usual rotation from the
  orbital plane to the ecliptic.
\<close>

lemma specTransformBasis_exact:
  "specTransformBasis exact_host (Finite i) (Finite \<Omega>) (Finite \<omega>) =
     Array [Array [Number (Finite (cos \<omega> * cos \<Omega> - cos i * sin \<omega> * sin \<Omega>)),
                   Number (Finite (- cos \<Omega> * sin \<omega> - cos i * cos \<omega> * sin \<Omega>)),
                   Number (Finite (sin i * sin \<Omega>))],
            Array [Number (Finite (cos \<omega> * sin \<Omega> + cos i * cos \<Omega> * sin \<omega>)),
                   Number (Finite (- sin \<omega> * sin \<Omega> + cos i * cos \<omega> * cos \<Omega>)),
                   Number (Finite (- sin i * cos \<Omega>))],
            Array [Number (Finite (sin i * sin \<omega>)), Number (Finite (sin i * cos \<omega>)),
                   Number (Finite (cos i))]]"
  by (simp add: specTransformBasis_def specRow1_def specRow2_def specRow3_def exact_host_fields
        exact_sub_def)

section \<open>Properties of the Position Resolver wrapper\<close>

text \<open>
  C4. \<^verbatim>\<open>getOrbitPositionSafe\<close> returns the origin whenever a, e or the true anomaly
  is NaN or not finite, whenever the transform matrix is falsy, not an array or not of
  length 3, and whenever a coordinate of the position \<^verbatim>\<open>getOrbitPosition\<close> computed is
  NaN or not finite. On every input, each coordinate of the value it returns is finite and
  not NaN.
\<close>

theorem getOrbitPositionSafe_fail_closed:
  "(isNaN h a \<or> \<not> isFinite h a \<or> isNaN h e \<or> \<not> isFinite h e
      \<or> isNaN h \<nu> \<or> \<not> isFinite h \<nu>
      \<longrightarrow> getOrbitPositionSafe h orb a e \<nu> m = origin)
   \<and> (\<not> truthy m \<or> \<not> isArray m \<or> (\<exists>rows. m = Array rows \<and> length rows \<noteq> 3)
      \<longrightarrow> getOrbitPositionSafe h orb a e \<nu> m = origin)
   \<and> (\<forall>pos. getOrbitPosition orb a e \<nu> m = Inr pos
         \<and> (isNaN h (member pos ''x'') \<or> \<not> isFinite h (member pos ''x'')
            \<or> isNaN h (member pos ''y'') \<or> \<not> isFinite h (member pos ''y'')
            \<or> isNaN h (member pos ''z'') \<or> \<not> isFinite h (member pos ''z''))
      \<longrightarrow> getOrbitPositionSafe h orb a e \<nu> m = origin)
   \<and> (\<forall>k \<in> {''x'', ''y'', ''z''}.
         \<not> isNaN h (member (getOrbitPositionSafe h orb a e \<nu> m) k)
         \<and> isFinite h (member (getOrbitPositionSafe h orb a e \<nu> m) k))"
  by (auto simp add: getOrbitPositionSafe_def validatePosition_def origin_def isNaN_def
        isFinite_def get_prop_def Let_def
        split: sum.splits option.splits if_splits)

text \<open>Running the engine and the orbit module of the sample.\<close>

lemma identityMatrix_entries:
  "entry exact_host identityMatrix ''0'' ''0'' = Finite 1"
  "entry exact_host identityMatrix ''0'' ''1'' = Finite 0"
  "entry exact_host identityMatrix ''1'' ''0'' = Finite 0"
  "entry exact_host identityMatrix ''1'' ''1'' = Finite 1"
  "entry exact_host identityMatrix ''2'' ''0'' = Finite 0"
  "entry exact_host identityMatrix ''2'' ''1'' = Finite 0"
  by (simp_all add: entry_def identityMatrix_def get_prop_def digit_def)

lemma position_at_periapsis:
  "spec_getOrbitPosition exact_host (Number (Finite 1)) (Number (Finite 0)) (Number (Finite 0))
     identityMatrix = Inr periapsisPosition"
  by (simp add: spec_getOrbitPosition_def identityMatrix_entries periapsisPosition_def
        exact_host_fields exact_sub_def Let_def)

lemma position_parabolic_apoapsis:
  "spec_getOrbitPosition exact_host (Number (Finite 1)) (Number (Finite 1)) (Number (Finite pi))
     identityMatrix = Inr undefinedPosition"
  by (simp add: spec_getOrbitPosition_def identityMatrix_entries undefinedPosition_def
        exact_host_fields exact_sub_def signed_infinity_def Let_def)

lemma matrix_ok: "truthy identityMatrix" "isArray identityMatrix" 
  "member identityMatrix ''length'' = Number (Finite 3)"
  by (simp_all add: identityMatrix_def)

lemma safe_at_periapsis:
  "getOrbitPositionSafe exact_host sample_orbits (Number (Finite 1)) (Number (Finite 0))
     (Number (Finite 0)) identityMatrix = periapsisPosition"
  by (simp add: getOrbitPositionSafe_def sample_orbits_def position_at_periapsis matrix_ok
           validatePosition_def isNaN_def isFinite_def)
     (simp add: periapsisPosition_def get_prop_def)

theorem getOrbitPositionSafe_fail_closed_witness:
  "isNaN exact_host (Number NaN)
   \<and> getOrbitPositionSafe exact_host sample_orbits (Number NaN) (Number (Finite 0))
        (Number (Finite 0)) identityMatrix = origin
   \<and> \<not> truthy Undefined
   \<and> getOrbitPositionSafe exact_host sample_orbits (Number (Finite 1)) (Number (Finite 0))
        (Number (Finite 0)) Undefined = origin
   \<and> getOrbitPosition sample_orbits (Number (Finite 1)) (Number (Finite 1)) (Number (Finite pi))
        identityMatrix = Inr undefinedPosition
   \<and> isNaN exact_host (member undefinedPosition ''x'')
   \<and> getOrbitPositionSafe exact_host sample_orbits (Number (Finite 1)) (Number (Finite 1))
        (Number (Finite pi)) identityMatrix = origin
   \<and> ''x'' \<in> {''x'', ''y'', ''z''}
   \<and> getOrbitPositionSafe exact_host sample_orbits (Number (Finite 1)) (Number (Finite 0))
        (Number (Finite 0)) identityMatrix = periapsisPosition
   \<and> isFinite exact_host (member periapsisPosition ''x'')"
proof -
  have nan: "isNaN exact_host (Number NaN)"
    by (simp add: isNaN_def)
  have pos: "getOrbitPosition sample_orbits (Number (Finite 1)) (Number (Finite 1))
        (Number (Finite pi)) identityMatrix = Inr undefinedPosition"
    by (simp add: sample_orbits_def position_parabolic_apoapsis)
  have bad: "isNaN exact_host (member undefinedPosition ''x'')"
    by (simp add: undefinedPosition_def isNaN_def get_prop_def)
  show ?thesis
    using nan pos bad safe_at_periapsis
      getOrbitPositionSafe_fail_closed [of exact_host "Number NaN" "Number (Finite 0)"
        "Number (Finite 0)" sample_orbits identityMatrix]
      getOrbitPositionSafe_fail_closed [of exact_host "Number (Finite 1)" "Number (Finite 0)"
        "Number (Finite 0)" sample_orbits Undefined]
      getOrbitPositionSafe_fail_closed [of exact_host "Number (Finite 1)" "Number (Finite 1)"
        "Number (Finite pi)" sample_orbits identityMatrix]
      getOrbitPositionSafe_fail_closed [of exact_host "Number (Finite 1)" "Number (Finite 0)"
        "Number (Finite 0)" sample_orbits identityMatrix]
    by simp
qed


section \<open>Properties of the driver loop\<close>

text \<open>
  Each \<^verbatim>\<open>forEach\<close> updates the bodies one index after the other; none of its steps
  writes the clock, so after \<open>n\<close> steps the first \<open>n\<close> bodies are updated against the
  time the loop started with.
\<close>

lemma map_prefix_step:
  "n < length xs \<Longrightarrow>
   (map f (take n xs) @ drop n xs)[n := f ((map f (take n xs) @ drop n xs) ! n)] =
     map f (take (Suc n) xs) @ drop (Suc n) xs"
  by (simp add: take_Suc_conv_app_nth list_update_append nth_append
        Cons_nth_drop_Suc [symmetric])

lemma foldl_updatePlanet:
  "n \<le> length (planets s) \<Longrightarrow>
   foldl (updatePlanet h orb) s [0..<n] =
     s\<lparr>planets := map (updateBody h orb (JD s)) (take n (planets s)) @ drop n (planets s)\<rparr>"
proof (induction n)
  case 0
  then show ?case by simp
next
  case (Suc n)
  then have "n < length (planets s)" by simp
  with Suc show ?case
    by (simp add: updatePlanet_def map_prefix_step)
qed

lemma forEach_planets:
  "foldl (updatePlanet h orb) s [0..<length (planets s)] =
     s\<lparr>planets := map (updateBody h orb (JD s)) (planets s)\<rparr>"
  by (simp add: foldl_updatePlanet)

lemma foldl_updateNeo:
  "n \<le> length (neos s) \<Longrightarrow>
   foldl (updateNeo h orb) s [0..<n] =
     s\<lparr>neos := map (updateBody h orb (MJD s)) (take n (neos s)) @ drop n (neos s)\<rparr>"
proof (induction n)
  case 0
  then show ?case by simp
next
  case (Suc n)
  then have "n < length (neos s)" by simp
  with Suc show ?case
    by (simp add: updateNeo_def map_prefix_step)
qed

lemma forEach_neos:
  "foldl (updateNeo h orb) s [0..<length (neos s)] =
     s\<lparr>neos := map (updateBody h orb (MJD s)) (neos s)\<rparr>"
  by (simp add: foldl_updateNeo)

lemma foldl_updateShower:
  "n \<le> length (showers s) \<Longrightarrow>
   foldl (updateShower h orb) s [0..<n] =
     (if shownTypes_Shower s
      then s\<lparr>showers := map (updateShowerParent h orb (JD s)) (take n (showers s))
                          @ drop n (showers s)\<rparr>
      else s)"
proof (induction n)
  case 0
  then show ?case by simp
next
  case (Suc n)
  then have "n < length (showers s)" by simp
  with Suc show ?case
    by (simp add: updateShower_def map_prefix_step)
qed

lemma forEach_showers:
  "foldl (updateShower h orb) s [0..<length (showers s)] =
     (if shownTypes_Shower s
      then s\<lparr>showers := map (updateShowerParent h orb (JD s)) (showers s)\<rparr>
      else s)"
  by (simp add: foldl_updateShower)

lemma finite_test: "(\<not> isFinite h (Number n) \<or> isNaN h (Number n)) \<longleftrightarrow> \<not> finiteNumber (Number n)"
  by (cases n) (simp_all add: isFinite_def isNaN_def)

lemma updateShowers_frame:
  "JD (updateShowers h orb s) = JD s \<and> MJD (updateShowers h orb s) = MJD s
   \<and> planets (updateShowers h orb s) = planets s \<and> neos (updateShowers h orb s) = neos s
   \<and> timeSpeedIndex (updateShowers h orb s) = timeSpeedIndex s
   \<and> lastFrameTime (updateShowers h orb s) = lastFrameTime s
   \<and> (showers (updateShowers h orb s) = showers s
      \<or> showers (updateShowers h orb s) = map (updateShowerParent h orb (JD s)) (showers s))"
  by (simp add: updateShowers_def forEach_showers split: option.splits sum.splits)

lemma animate_cases:
  "animate h orb time s =
     (if num_lt (frameDelta h time s) (Finite 16.67) then s
      else if \<not> finiteNumber (Number (julianDelta h time s)) then s\<lparr>lastFrameTime := Number time\<rparr>
      else updateShowers h orb
             (s\<lparr>lastFrameTime := Number time,
                JD := num_add h (JD s) (julianDelta h time s),
                MJD := num_add h (MJD s) (julianDelta h time s),
                planets := map (updateBody h orb (num_add h (JD s) (julianDelta h time s))) (planets s),
                neos := map (updateBody h orb (num_add h (MJD s) (julianDelta h time s))) (neos s)\<rparr>))"
proof -
  have fin: "(\<not> isFinite h (Number (julianDelta h time s)) \<or> isNaN h (Number (julianDelta h time s)))
      = (\<not> finiteNumber (Number (julianDelta h time s)))"
    by (rule finite_test)
  have idx: "timeSpeedIndex (s\<lparr>lastFrameTime := Number time\<rparr>) = timeSpeedIndex s"
    by simp
  show ?thesis
    unfolding animate_def Let_def idx frameDelta_def [symmetric] julianDelta_def [symmetric] fin
    by (simp add: foldl_updatePlanet foldl_updateNeo)
qed


lemma updatePlanet_clock:
  "JD (updatePlanet h orb s i) = JD s \<and> MJD (updatePlanet h orb s i) = MJD s"
  by (simp add: updatePlanet_def)

lemma updateNeo_clock:
  "JD (updateNeo h orb s i) = JD s \<and> MJD (updateNeo h orb s i) = MJD s"
  by (simp add: updateNeo_def)

lemma updateShower_clock:
  "JD (updateShower h orb s i) = JD s \<and> MJD (updateShower h orb s i) = MJD s"
  by (simp add: updateShower_def)

lemma foldl_clock:
  assumes "\<And>s i. JD (step s i) = JD s \<and> MJD (step s i) = MJD s"
  shows "JD (foldl step s ixs) = JD s \<and> MJD (foldl step s ixs) = MJD s"
  using assms by (induction ixs arbitrary: s) simp_all



lemma ensure_truthy: "truthy (fst (ensureTransformMatrix h p))"
  by (simp add: ensureTransformMatrix_def get_set_prop Let_def)

lemma ensure_keeps:
  "k \<noteq> ''transformMatrix'' \<Longrightarrow> get_prop (snd (ensureTransformMatrix h p)) k = get_prop p k"
  by (simp add: ensureTransformMatrix_def get_set_prop Let_def)

lemma updateBody_valid:
  "finiteNumber (Number t) \<Longrightarrow> JulianDateToTrueAnomaly orb (data_orbitParams b) t = Inr \<nu> \<Longrightarrow>
   \<not> isNaN h \<nu> \<Longrightarrow> isFinite h \<nu> \<Longrightarrow>
   updateBody h orb t b =
     setPosition h (b\<lparr>data_orbitParams := snd (ensureTransformMatrix h (data_orbitParams b))\<rparr>)
       (getOrbitPositionSafe h orb (get_prop (data_orbitParams b) ''a'')
          (get_prop (data_orbitParams b) ''e'') \<nu>
          (fst (ensureTransformMatrix h (data_orbitParams b))))"
proof -
  assume t: "finiteNumber (Number t)"
    and \<nu>: "JulianDateToTrueAnomaly orb (data_orbitParams b) t = Inr \<nu>"
      "\<not> isNaN h \<nu>" "isFinite h \<nu>"
  obtain m p' where ens: "ensureTransformMatrix h (data_orbitParams b) = (m, p')"
    by (cases "ensureTransformMatrix h (data_orbitParams b)")
  have m: "truthy m"
    using ensure_truthy [of h "data_orbitParams b"] ens by simp
  have keeps: "get_prop p' ''a'' = get_prop (data_orbitParams b) ''a''"
    "get_prop p' ''e'' = get_prop (data_orbitParams b) ''e''"
    using ensure_keeps [of "''a''" h "data_orbitParams b"]
      ensure_keeps [of "''e''" h "data_orbitParams b"] ens
    by simp_all
  from t have time: "isFinite h (Number t)" "\<not> isNaN h (Number t)"
    by (cases t; simp add: isFinite_def isNaN_def)+
  show ?thesis
    by (simp add: updateBody_def Let_def time \<nu> ens m keeps)
qed






text \<open>The bodies of the sample, updated once.\<close>

lemma ensure_circular:
  "ensureTransformMatrix exact_host circularOrbit = (identityMatrix, circularOrbitCached)"
  by (simp add: ensureTransformMatrix_def circularOrbit_def circularOrbitCached_def get_prop_def
        set_prop_def exact_host_fields exact_sub_def identityMatrix_def Let_def)

lemma cached_fields:
  "get_prop circularOrbitCached ''a'' = Number (Finite 1)"
  "get_prop circularOrbitCached ''e'' = Number (Finite 0)"
  by (simp_all add: circularOrbitCached_def circularOrbit_def get_prop_def)

lemma validate_periapsis: "validatePosition exact_host periapsisPosition = Some periapsisPosition"
  by (simp add: validatePosition_def periapsisPosition_def isNaN_def isFinite_def get_prop_def Let_def)

lemma periapsis_members:
  "member periapsisPosition ''x'' = Number (Finite 1)"
  "member periapsisPosition ''y'' = Number (Finite 0)"
  "member periapsisPosition ''z'' = Number (Finite 0)"
  by (simp_all add: periapsisPosition_def get_prop_def)

lemma updateBody_stalled:
  "updateBody exact_host sample_orbits t (sampleBody name stalledOrbit) =
     sampleBody name stalledOrbit"
  by (simp add: updateBody_def sampleBody_def sample_orbits_def fixedAnomaly_def
        stalledOrbit_def get_prop_def isNaN_def isFinite_def Let_def)

lemma anomaly_circular:
  "JulianDateToTrueAnomaly sample_orbits circularOrbit t = Inr (Number (Finite 0))"
  by (simp add: sample_orbits_def fixedAnomaly_def circularOrbit_def get_prop_def)

lemma updateBody_circular:
  "updateBody exact_host sample_orbits (Finite t) (sampleBody name circularOrbit) =
     movedBody name"
  by (simp add: updateBody_def sampleBody_def anomaly_circular ensure_circular matrix_ok
        cached_fields safe_at_periapsis setPosition_def validate_periapsis periapsis_members
        movedBody_def isNaN_def isFinite_def)

lemma updateShowerParent_sample:
  "updateShowerParent exact_host sample_orbits (Finite t) sampleShower = movedShower"
  by (simp add: updateShowerParent_def sampleShower_def anomaly_circular ensure_circular
        matrix_ok cached_fields safe_at_periapsis setShowerPosition_def validate_periapsis
        periapsis_members movedShower_def isNaN_def isFinite_def)

lemma speed_10: "TIMESPEEDS_at exact_host 10 = Number (Finite 1)"
  by (simp add: TIMESPEEDS_at_def TIMESPEEDS_def)

lemma sample_deltas:
  "frameDelta exact_host (Finite 5) sampleSim = Finite 5"
  "frameDelta exact_host (Finite 1000) sampleSim = Finite 1000"
  "julianDelta exact_host (Finite 1000) sampleSim = Finite 1"
  "frameDelta exact_host PosInfinity sampleSim = PosInfinity"
  "julianDelta exact_host PosInfinity sampleSim = PosInfinity"
  by (simp_all add: frameDelta_def julianDelta_def sampleSim_def speed_10 exact_host_fields
        exact_sub_def signed_infinity_def)



text \<open>The sample state, stepped by one tick of 1000 ms at one day per second.\<close>

lemma anomaly_cached:
  "JulianDateToTrueAnomaly sample_orbits circularOrbitCached t = Inr (Number (Finite 0))"
  by (simp add: sample_orbits_def fixedAnomaly_def circularOrbitCached_def circularOrbit_def
        get_prop_def)

lemma sample_fields:
  "JD sampleSim = Finite 2460000" "MJD sampleSim = Finite 60000"
  "planets sampleSim = [sampleBody ''Comet'' stalledOrbit, sampleBody ''Earth'' circularOrbit]"
  "neos sampleSim = [sampleBody ''Apophis'' stalledOrbit, sampleBody ''Bennu'' circularOrbit]"
  "showers sampleSim = [sampleShower]" "timeSpeedIndex sampleSim = 10"
  by (simp_all add: sampleSim_def)

lemma showers_after:
  "updateShowers exact_host sample_orbits
     \<lparr>JD = Finite 2460001, MJD = Finite 60001, timeSpeedIndex = 10,
      lastFrameTime = Number (Finite 1000),
      planets = [sampleBody ''Comet'' stalledOrbit, movedBody ''Earth''],
      neos = [sampleBody ''Apophis'' stalledOrbit, movedBody ''Bennu''],
      showers = [sampleShower], shownTypes_Shower = True\<rparr> = sampleSimAfter"
  by (simp add: updateShowers_def sampleBody_def movedBody_def anomaly_cached isFinite_def
        isNaN_def updateShower_def updateShowerParent_sample sampleSimAfter_def)

lemma animate_sample:
  "animate exact_host sample_orbits (Finite 1000) sampleSim = sampleSimAfter"
proof -
  have "animate exact_host sample_orbits (Finite 1000) sampleSim =
      updateShowers exact_host sample_orbits
       \<lparr>JD = Finite 2460001, MJD = Finite 60001, timeSpeedIndex = 10,
        lastFrameTime = Number (Finite 1000),
        planets = [sampleBody ''Comet'' stalledOrbit, movedBody ''Earth''],
        neos = [sampleBody ''Apophis'' stalledOrbit, movedBody ''Bennu''],
        showers = [sampleShower], shownTypes_Shower = True\<rparr>"
    by (simp add: animate_cases sample_deltas sample_fields exact_host_fields
          updateBody_stalled updateBody_circular)
       (simp add: sampleSim_def)
  then show ?thesis
    by (simp add: showers_after)
qed


text \<open>
  C5. A tick whose wall-clock delta is below 16.67 ms changes nothing: the state, with JD,
  MJD and every body, is the one before. Otherwise, with \<open>deltaJulian\<close> the value of
  \<^verbatim>\<open>deltaTime * TIMESPEEDS[timeSpeedIndex] / 1000\<close>: when it is a finite number, JD and
  MJD after the tick are the engine's sums of their old values and \<open>deltaJulian\<close>, and the
  tick is recorded as the last frame; when it is NaN or not finite, the tick only records
  the frame time, and JD, MJD, the planets, the NEOs and the showers are unchanged. In both
  cases the delta of any later tick is measured from this one.
\<close>

theorem animate_tick:
  "(num_lt (frameDelta h time s) (Finite 16.67) \<longrightarrow> animate h orb time s = s)
   \<and> (\<not> num_lt (frameDelta h time s) (Finite 16.67)
        \<and> finiteNumber (Number (julianDelta h time s))
      \<longrightarrow> JD (animate h orb time s) = num_add h (JD s) (julianDelta h time s)
        \<and> MJD (animate h orb time s) = num_add h (MJD s) (julianDelta h time s)
        \<and> lastFrameTime (animate h orb time s) = Number time)
   \<and> (\<not> num_lt (frameDelta h time s) (Finite 16.67)
        \<and> \<not> finiteNumber (Number (julianDelta h time s))
      \<longrightarrow> animate h orb time s = s\<lparr>lastFrameTime := Number time\<rparr>
        \<and> JD (animate h orb time s) = JD s \<and> MJD (animate h orb time s) = MJD s
        \<and> planets (animate h orb time s) = planets s \<and> neos (animate h orb time s) = neos s
        \<and> showers (animate h orb time s) = showers s)
   \<and> (\<not> num_lt (frameDelta h time s) (Finite 16.67)
      \<longrightarrow> (\<forall>time'. frameDelta h time' (animate h orb time s) =
             num_sub h time'
               (ToNumber h (if truthy (Number time) then Number time else Number (Finite 0)))))"
  by (simp add: animate_cases updateShowers_frame frameDelta_def)

lemma after_deltas:
  "frameDelta exact_host (Finite 1010) sampleSimAfter = Finite 10"
  "frameDelta exact_host (Finite 2000) sampleSimAfter = Finite 1000"
  "julianDelta exact_host (Finite 2000) sampleSimAfter = Finite 1"
  by (simp_all add: frameDelta_def julianDelta_def sampleSimAfter_def speed_10 exact_host_fields
        exact_sub_def)

theorem animate_tick_witness:
  "num_lt (frameDelta exact_host (Finite 5) sampleSim) (Finite 16.67)
   \<and> animate exact_host sample_orbits (Finite 5) sampleSim = sampleSim
   \<and> \<not> num_lt (frameDelta exact_host (Finite 1000) sampleSim) (Finite 16.67)
   \<and> finiteNumber (Number (julianDelta exact_host (Finite 1000) sampleSim))
   \<and> JD (animate exact_host sample_orbits (Finite 1000) sampleSim) = Finite 2460001
   \<and> MJD (animate exact_host sample_orbits (Finite 1000) sampleSim) = Finite 60001
   \<and> lastFrameTime (animate exact_host sample_orbits (Finite 1000) sampleSim) =
       Number (Finite 1000)
   \<and> animate exact_host sample_orbits (Finite 1000) sampleSim = sampleSimAfter
   \<and> num_lt (frameDelta exact_host (Finite 1010) sampleSimAfter) (Finite 16.67)
   \<and> animate exact_host sample_orbits (Finite 1010) sampleSimAfter = sampleSimAfter
   \<and> \<not> num_lt (frameDelta exact_host (Finite 2000) sampleSimAfter) (Finite 16.67)
   \<and> finiteNumber (Number (julianDelta exact_host (Finite 2000) sampleSimAfter))
   \<and> JD (animate exact_host sample_orbits (Finite 2000) sampleSimAfter) = Finite 2460002
   \<and> MJD (animate exact_host sample_orbits (Finite 2000) sampleSimAfter) = Finite 60002
   \<and> lastFrameTime (animate exact_host sample_orbits (Finite 2000) sampleSimAfter) =
       Number (Finite 2000)
   \<and> \<not> num_lt (frameDelta exact_host PosInfinity sampleSim) (Finite 16.67)
   \<and> \<not> finiteNumber (Number (julianDelta exact_host PosInfinity sampleSim))
   \<and> animate exact_host sample_orbits PosInfinity sampleSim =
       sampleSim\<lparr>lastFrameTime := Number PosInfinity\<rparr>"
proof -
  have after: "JD sampleSimAfter = Finite 2460001" "MJD sampleSimAfter = Finite 60001"
    by (simp_all add: sampleSimAfter_def)
  show ?thesis
    using animate_tick [of exact_host "Finite 5" sampleSim sample_orbits]
      animate_tick [of exact_host "Finite 1000" sampleSim sample_orbits]
      animate_tick [of exact_host "Finite 1010" sampleSimAfter sample_orbits]
      animate_tick [of exact_host "Finite 2000" sampleSimAfter sample_orbits]
      animate_tick [of exact_host PosInfinity sampleSim sample_orbits]
    by (simp add: sample_deltas after_deltas sample_fields after exact_host_fields exact_sub_def
          animate_sample)
qed
















text \<open>
  C9. In an accepted tick the clock is advanced once, to JD + \<open>deltaJulian\<close> and
  MJD + \<open>deltaJulian\<close>; every planet is updated against that JD, every NEO against that
  MJD, and the showers, when they are updated, against that JD. No step of the three loops
  changes the time the next step reads.
\<close>

theorem animate_single_time_value:
  "(\<not> num_lt (frameDelta h time s) (Finite 16.67)
      \<and> finiteNumber (Number (julianDelta h time s))
    \<longrightarrow> JD (animate h orb time s) = num_add h (JD s) (julianDelta h time s)
        \<and> MJD (animate h orb time s) = num_add h (MJD s) (julianDelta h time s)
        \<and> planets (animate h orb time s) =
            map (updateBody h orb (num_add h (JD s) (julianDelta h time s))) (planets s)
        \<and> neos (animate h orb time s) =
            map (updateBody h orb (num_add h (MJD s) (julianDelta h time s))) (neos s)
        \<and> (showers (animate h orb time s) = showers s
           \<or> showers (animate h orb time s) =
               map (updateShowerParent h orb (num_add h (JD s) (julianDelta h time s)))
                 (showers s)))
   \<and> (\<forall>s0 n. JD (foldl (updatePlanet h orb) s0 [0..<n]) = JD s0
            \<and> MJD (foldl (updateNeo h orb) s0 [0..<n]) = MJD s0
            \<and> JD (foldl (updateShower h orb) s0 [0..<n]) = JD s0)"
proof -
  have loops: "\<forall>s0 n. JD (foldl (updatePlanet h orb) s0 [0..<n]) = JD s0
            \<and> MJD (foldl (updateNeo h orb) s0 [0..<n]) = MJD s0
            \<and> JD (foldl (updateShower h orb) s0 [0..<n]) = JD s0"
    using foldl_clock [of "updatePlanet h orb", OF updatePlanet_clock]
      foldl_clock [of "updateNeo h orb", OF updateNeo_clock]
      foldl_clock [of "updateShower h orb", OF updateShower_clock]
    by simp
  let ?s2 = "s\<lparr>lastFrameTime := Number time,
                JD := num_add h (JD s) (julianDelta h time s),
                MJD := num_add h (MJD s) (julianDelta h time s),
                planets := map (updateBody h orb (num_add h (JD s) (julianDelta h time s)))
                             (planets s),
                neos := map (updateBody h orb (num_add h (MJD s) (julianDelta h time s)))
                          (neos s)\<rparr>"
  show ?thesis
    using loops updateShowers_frame [of h orb ?s2]
    by (simp add: animate_cases)
qed

theorem animate_single_time_value_witness:
  "\<not> num_lt (frameDelta exact_host (Finite 1000) sampleSim) (Finite 16.67)
   \<and> finiteNumber (Number (julianDelta exact_host (Finite 1000) sampleSim))
   \<and> JD (animate exact_host sample_orbits (Finite 1000) sampleSim) = Finite 2460001
   \<and> MJD (animate exact_host sample_orbits (Finite 1000) sampleSim) = Finite 60001
   \<and> planets (animate exact_host sample_orbits (Finite 1000) sampleSim) =
       map (updateBody exact_host sample_orbits (Finite 2460001)) (planets sampleSim)
   \<and> neos (animate exact_host sample_orbits (Finite 1000) sampleSim) =
       map (updateBody exact_host sample_orbits (Finite 60001)) (neos sampleSim)
   \<and> showers (animate exact_host sample_orbits (Finite 1000) sampleSim) =
       map (updateShowerParent exact_host sample_orbits (Finite 2460001)) (showers sampleSim)
   \<and> showers (animate exact_host sample_orbits (Finite 1000) sampleSim) = [movedShower]"
  using animate_single_time_value [of exact_host "Finite 1000" sampleSim sample_orbits]
  by (simp add: sample_deltas sample_fields exact_host_fields animate_sample sampleSimAfter_def
        updateShowerParent_sample updateBody_stalled updateBody_circular)

section \<open>Properties of the clock actions\<close>

text \<open>
  C7. The table has 14 entries. From an index between 0 and 13, every action (and every
  string that is no action) and every tick leave the index between 0 and 13;
  \<^verbatim>\<open>'fastforward'\<close> adds one below 13 and changes nothing at 13,
  \<^verbatim>\<open>'fastbackward'\<close> subtracts one above 0 and changes nothing at 0.
\<close>

theorem handleTimeControl_index:
  "(0 \<le> timeSpeedIndex s \<and> timeSpeedIndex s \<le> 13
    \<longrightarrow> (\<forall>now action. 0 \<le> timeSpeedIndex (handleTimeControl h orb now action s)
             \<and> timeSpeedIndex (handleTimeControl h orb now action s) \<le> 13)
        \<and> (\<forall>time. timeSpeedIndex (animate h orb time s) = timeSpeedIndex s)
        \<and> timeSpeedIndex (handleTimeControl h orb now ''fastforward'' s) =
            (if timeSpeedIndex s < 13 then timeSpeedIndex s + 1 else timeSpeedIndex s)
        \<and> timeSpeedIndex (handleTimeControl h orb now ''fastbackward'' s) =
            (if 0 < timeSpeedIndex s then timeSpeedIndex s - 1 else timeSpeedIndex s)
        \<and> (timeSpeedIndex s = 13 \<longrightarrow> handleTimeControl h orb now ''fastforward'' s = s)
        \<and> (timeSpeedIndex s = 0 \<longrightarrow> handleTimeControl h orb now ''fastbackward'' s = s))
   \<and> length (TIMESPEEDS h) = 14"
  by (auto simp add: handleTimeControl_def TIMESPEEDS_def Let_def animate_cases updateShowers_frame)


theorem handleTimeControl_index_witness:
  "0 \<le> timeSpeedIndex sampleSim \<and> timeSpeedIndex sampleSim \<le> 13
   \<and> timeSpeedIndex (handleTimeControl exact_host sample_orbits (Finite 0) ''fastforward''
        sampleSim) = 11
   \<and> timeSpeedIndex (handleTimeControl exact_host sample_orbits (Finite 0) ''fastbackward''
        sampleSim) = 9
   \<and> timeSpeedIndex (sampleSim\<lparr>timeSpeedIndex := 13\<rparr>) = 13
   \<and> handleTimeControl exact_host sample_orbits (Finite 0) ''fastforward''
        (sampleSim\<lparr>timeSpeedIndex := 13\<rparr>) = sampleSim\<lparr>timeSpeedIndex := 13\<rparr>
   \<and> timeSpeedIndex (sampleSim\<lparr>timeSpeedIndex := 0\<rparr>) = 0
   \<and> handleTimeControl exact_host sample_orbits (Finite 0) ''fastbackward''
        (sampleSim\<lparr>timeSpeedIndex := 0\<rparr>) = sampleSim\<lparr>timeSpeedIndex := 0\<rparr>"
  using handleTimeControl_index [of sampleSim exact_host sample_orbits "Finite 0"]
    handleTimeControl_index [of "sampleSim\<lparr>timeSpeedIndex := 13\<rparr>" exact_host sample_orbits
      "Finite 0"]
    handleTimeControl_index [of "sampleSim\<lparr>timeSpeedIndex := 0\<rparr>" exact_host sample_orbits
      "Finite 0"]
  by (simp add: sample_fields)


section \<open>Properties of the Orbit Curve Generator wrapper\<close>

lemma hasInvalidCoordinate_iff:
  "hasInvalidCoordinate h ps \<longleftrightarrow> (\<exists>p \<in> set ps. isNaN h p \<or> \<not> isFinite h p)"
  by (induction ps) auto

text \<open>
  C8. \<^verbatim>\<open>createOrbitSafe\<close> returns \<^verbatim>\<open>null\<close> when the parameters fail
  validation, and when a coordinate of the geometry \<^verbatim>\<open>createOrbit\<close> built is NaN or
  not finite. Every coordinate of an orbit it returns is finite and not NaN. When it returns
  \<^verbatim>\<open>null\<close> for an entry, \<^verbatim>\<open>initializeNeos\<close> and
  \<^verbatim>\<open>initializePlanets\<close> go on to the next entry without adding a body.
\<close>

theorem createOrbitSafe_all_or_nothing:
  "(validateOrbitParams h orbitParams = None
      \<longrightarrow> createOrbitSafe h orb orbitParams color points = None)
   \<and> (\<forall>validParams orbit validParams' ps.
         validateOrbitParams h orbitParams = Some validParams
         \<and> createOrbit orb validParams color points = Inr (Some orbit, validParams')
         \<and> positions orbit = Some ps
         \<and> (\<exists>p \<in> set ps. isNaN h p \<or> \<not> isFinite h p)
       \<longrightarrow> createOrbitSafe h orb orbitParams color points = None)
   \<and> (\<forall>orbit ps. createOrbitSafe h orb orbitParams color points = Some orbit
         \<and> positions orbit = Some ps
       \<longrightarrow> (\<forall>p \<in> set ps. \<not> isNaN h p \<and> isFinite h p))
   \<and> (\<forall>name data rest i bodies.
         \<not> nullish data
         \<and> createOrbitSafe h orb (Object (processedOrbitParams h (member data ''orbitParams'')))
              NEO_ORBIT_COLOR ORBIT_MESH_POINTS = None
       \<longrightarrow> initializeNeos h orb ((name, data) # rest) i bodies =
             initializeNeos h orb rest i bodies)
   \<and> (\<forall>name data rest bodies.
         \<not> nullish data \<and> \<not> nullish (member data ''renderParams'')
         \<and> createOrbitSafe h orb (Object (processedOrbitParams h (member data ''orbitParams'')))
              (member (member data ''renderParams'') ''color'') ORBIT_MESH_POINTS = None
       \<longrightarrow> initializePlanets h orb ((name, data) # rest) bodies =
             initializePlanets h orb rest bodies)"
  by (auto simp add: createOrbitSafe_def hasInvalidCoordinate_iff Let_def
        split: option.splits sum.splits if_splits)

lemma ensure_flat:
  "get_prop p ''inc'' = Number (Finite 0) \<Longrightarrow> get_prop p ''node'' = Number (Finite 0) \<Longrightarrow>
   get_prop p ''peri'' = Number (Finite 0) \<Longrightarrow> get_prop p ''transformMatrix'' = Undefined \<Longrightarrow>
   ensureTransformMatrix exact_host p =
     (identityMatrix, set_prop p ''transformMatrix'' identityMatrix)"
  by (simp add: ensureTransformMatrix_def exact_host_fields exact_sub_def identityMatrix_def
        get_set_prop Let_def)

lemma position_at_apoapsis:
  "spec_getOrbitPosition exact_host (Number (Finite 1)) (Number (Finite 0)) (Number (Finite pi))
     identityMatrix =
   Inr (Object [(''x'', Number (Finite (- 1))), (''y'', Number (Finite 0)),
                (''z'', Number (Finite 0))])"
  by (simp add: spec_getOrbitPosition_def identityMatrix_entries exact_host_fields exact_sub_def
        Let_def)

lemma position_flipped:
  "spec_getOrbitPosition exact_host (Number (Finite 1)) (Number (Finite (- 1)))
     (Number (Finite 0)) identityMatrix = Inr undefinedPosition"
  by (simp add: spec_getOrbitPosition_def identityMatrix_entries undefinedPosition_def
        exact_host_fields exact_sub_def signed_infinity_def Let_def)

lemma validate_circular:
  "validateOrbitParams exact_host (Object circularOrbit) = Some circularOrbit"
  by (simp add: validate_Object requiredFields_def circularOrbit_def get_prop_def num_ge_def)

lemma validate_flipped:
  "validateOrbitParams exact_host (Object flippedOrbit) = Some flippedOrbit"
  by (simp add: validate_Object requiredFields_def flippedOrbit_def get_prop_def num_ge_def)

lemma validate_negativeAxis:
  "validateOrbitParams exact_host (Object negativeAxis) = None"
  by (simp add: validate_Object requiredFields_def negativeAxis_def get_prop_def)

lemma createOrbit_circular:
  "createOrbit sample_orbits circularOrbit color points =
     Inr (Some \<lparr>positions = Some [Number (Finite 1), Number (Finite 0), Number (Finite 0),
                        Number (Finite (- 1)), Number (Finite 0), Number (Finite 0)],
                userData = []\<rparr>, circularOrbitCached)"
  by (simp add: sample_orbits_def spec_createOrbit_def ensure_circular cached_fields
        position_at_periapsis position_at_apoapsis coordinates_def periapsisPosition_def
        get_prop_Cons get_prop_Nil Let_def)

lemma createOrbit_flipped:
  "\<exists>orbit validParams' ps.
     createOrbit sample_orbits flippedOrbit color points = Inr (Some orbit, validParams')
     \<and> positions orbit = Some (Number NaN # ps)"
proof -
  have flat: "ensureTransformMatrix exact_host flippedOrbit =
      (identityMatrix, set_prop flippedOrbit ''transformMatrix'' identityMatrix)"
    by (rule ensure_flat) (simp_all add: flippedOrbit_def get_prop_def)
  have fields: "get_prop (set_prop flippedOrbit ''transformMatrix'' identityMatrix) ''a'' =
        Number (Finite 1)"
      "get_prop (set_prop flippedOrbit ''transformMatrix'' identityMatrix) ''e'' =
        Number (Finite (- 1))"
    by (simp_all add: get_set_prop) (simp_all add: flippedOrbit_def get_prop_def)
  show ?thesis
    by (simp add: sample_orbits_def spec_createOrbit_def flat fields position_flipped
          coordinates_def undefinedPosition_def get_prop_Cons get_prop_Nil Let_def)
qed

lemma createOrbitSafe_circular:
  "createOrbitSafe exact_host sample_orbits (Object circularOrbit) color points =
     Some circularCurve"
  by (simp add: createOrbitSafe_def validate_circular createOrbit_circular isNaN_def
        isFinite_def circularCurve_def set_prop_def)
     (simp add: circularOrbitCached_def circularOrbit_def get_prop_def identityMatrix_def)

theorem createOrbitSafe_all_or_nothing_witness:
  "validateOrbitParams exact_host (Object negativeAxis) = None
   \<and> createOrbitSafe exact_host sample_orbits (Object negativeAxis) NEO_ORBIT_COLOR
        ORBIT_MESH_POINTS = None
   \<and> validateOrbitParams exact_host (Object flippedOrbit) = Some flippedOrbit
   \<and> (\<exists>orbit validParams' ps.
         createOrbit sample_orbits flippedOrbit NEO_ORBIT_COLOR ORBIT_MESH_POINTS =
           Inr (Some orbit, validParams')
         \<and> positions orbit = Some (Number NaN # ps))
   \<and> isNaN exact_host (Number NaN)
   \<and> createOrbitSafe exact_host sample_orbits (Object flippedOrbit) NEO_ORBIT_COLOR
        ORBIT_MESH_POINTS = None
   \<and> createOrbitSafe exact_host sample_orbits (Object circularOrbit) NEO_ORBIT_COLOR
        ORBIT_MESH_POINTS = Some circularCurve
   \<and> positions circularCurve =
        Some [Number (Finite 1), Number (Finite 0), Number (Finite 0),
              Number (Finite (- 1)), Number (Finite 0), Number (Finite 0)]
   \<and> Number (Finite (- 1)) \<in> set [Number (Finite 1), Number (Finite 0), Number (Finite 0),
                                     Number (Finite (- 1)), Number (Finite 0), Number (Finite 0)]
   \<and> isFinite exact_host (Number (Finite (- 1)))"
proof -
  obtain orbit validParams' ps where
    bad: "createOrbit sample_orbits flippedOrbit NEO_ORBIT_COLOR ORBIT_MESH_POINTS =
            Inr (Some orbit, validParams')"
      "positions orbit = Some (Number NaN # ps)"
    using createOrbit_flipped by blast
  have nan: "isNaN exact_host (Number NaN)"
    by (simp add: isNaN_def)
  have none: "createOrbitSafe exact_host sample_orbits (Object flippedOrbit) NEO_ORBIT_COLOR
        ORBIT_MESH_POINTS = None"
    using createOrbitSafe_all_or_nothing [of exact_host "Object flippedOrbit" sample_orbits
        NEO_ORBIT_COLOR ORBIT_MESH_POINTS] validate_flipped bad nan
    by fastforce
  show ?thesis
    using none nan bad validate_flipped validate_negativeAxis
      createOrbitSafe_all_or_nothing [of exact_host "Object negativeAxis" sample_orbits
        NEO_ORBIT_COLOR ORBIT_MESH_POINTS]
      createOrbitSafe_all_or_nothing [of exact_host "Object circularOrbit" sample_orbits
        NEO_ORBIT_COLOR ORBIT_MESH_POINTS]
    by (simp add: createOrbitSafe_circular circularCurve_def isFinite_def)
qed


section \<open>Properties of the body initializers\<close>

lemma processed_keeps:
  "k \<notin> {''inc'', ''node'', ''peri'', ''ma''} \<Longrightarrow>
   get_prop (processedOrbitParams h raw) k = get_prop (spread raw) k"
  by (simp add: processedOrbitParams_def mulAssign_def get_set_prop Let_def)

lemma newBody_fields:
  "body_name (newBody h orb name processed orbit) = name"
  "data_orbitParams (newBody h orb name processed orbit) = processed"
  by (simp_all add: newBody_def Let_def)

lemma builtFrom_Cons: "builtFrom h rest b \<Longrightarrow> builtFrom h (ent # rest) b"
  by (auto simp add: builtFrom_def)

lemma builtFrom_newBody:
  "validateOrbitParams h (member data ''orbitParams'') \<noteq> None \<Longrightarrow>
   builtFrom h ((name, data) # rest)
     (newBody h orb name (processedOrbitParams h (member data ''orbitParams'')) orbit)"
  by (simp add: builtFrom_def newBody_fields)

lemma initializeNeos_builtFrom:
  "b \<in> set (initializeNeos h orb entries i bodies) \<Longrightarrow>
   b \<in> set bodies \<or> builtFrom h entries b"
proof (induction entries arbitrary: i bodies)
  case Nil
  then show ?case by simp
next
  case (Cons ent rest)
  obtain neoName neoData where ent: "ent = (neoName, neoData)"
    by (cases ent)
  let ?processed = "processedOrbitParams h (member neoData ''orbitParams'')"
  from Cons.prems consider
      (stop) "b \<in> set bodies"
    | (skip) "b \<in> set (initializeNeos h orb rest i bodies)"
    | (push) orbit where
        "validateOrbitParams h (member neoData ''orbitParams'') \<noteq> None"
        "b \<in> set (bodies @ [newBody h orb neoName ?processed orbit])
         \<or> b \<in> set (initializeNeos h orb rest (i + 1)
                      (bodies @ [newBody h orb neoName ?processed orbit]))"
    unfolding ent
    by (auto simp add: Let_def split: if_splits option.splits)
  then show ?case
  proof cases
    case stop
    then show ?thesis by simp
  next
    case skip
    then show ?thesis
      using Cons.IH [of i bodies] by (auto simp add: builtFrom_Cons)
  next
    case push
    have new: "builtFrom h (ent # rest) (newBody h orb neoName ?processed orbit)"
      unfolding ent using push(1) by (rule builtFrom_newBody)
    from push(2) have "b \<in> set bodies \<or> b = newBody h orb neoName ?processed orbit
        \<or> builtFrom h rest b"
      using Cons.IH [of "i + 1" "bodies @ [newBody h orb neoName ?processed orbit]"]
      by auto
    with new show ?thesis
      by (auto simp add: builtFrom_Cons)
  qed
qed

lemma initializePlanets_builtFrom:
  "b \<in> set (initializePlanets h orb entries bodies) \<Longrightarrow>
   b \<in> set bodies \<or> builtFrom h entries b"
proof (induction entries arbitrary: bodies)
  case Nil
  then show ?case by simp
next
  case (Cons ent rest)
  obtain planetName planetData where ent: "ent = (planetName, planetData)"
    by (cases ent)
  let ?processed = "processedOrbitParams h (member planetData ''orbitParams'')"
  from Cons.prems consider
      (stop) "b \<in> set bodies"
    | (skip) "b \<in> set (initializePlanets h orb rest bodies)"
    | (push) orbit where
        "validateOrbitParams h (member planetData ''orbitParams'') \<noteq> None"
        "b \<in> set (initializePlanets h orb rest
                     (bodies @ [newBody h orb planetName ?processed orbit]))"
    unfolding ent
    by (auto simp add: Let_def split: if_splits option.splits)
  then show ?case
  proof cases
    case stop
    then show ?thesis by simp
  next
    case skip
    then show ?thesis
      using Cons.IH [of bodies] by (auto simp add: builtFrom_Cons)
  next
    case push
    have new: "builtFrom h (ent # rest) (newBody h orb planetName ?processed orbit)"
      unfolding ent using push(1) by (rule builtFrom_newBody)
    from push(2) have "b \<in> set bodies \<or> b = newBody h orb planetName ?processed orbit
        \<or> builtFrom h rest b"
      using Cons.IH [of "bodies @ [newBody h orb planetName ?processed orbit]"]
      by auto
    with new show ?thesis
      by (auto simp add: builtFrom_Cons)
  qed
qed

lemma setPosition_params: "data_orbitParams (setPosition h b pos) = data_orbitParams b"
  by (simp add: setPosition_def split: option.splits)

lemma updateBody_keeps:
  assumes "k \<noteq> ''transformMatrix''"
  shows "get_prop (data_orbitParams (updateBody h orb t b)) k = get_prop (data_orbitParams b) k"
proof -
  obtain m p' where ens: "ensureTransformMatrix h (data_orbitParams b) = (m, p')"
    by (cases "ensureTransformMatrix h (data_orbitParams b)")
  have "get_prop p' k = get_prop (data_orbitParams b) k"
    using ensure_keeps [OF assms, of h "data_orbitParams b"] ens by simp
  then show ?thesis
    by (simp add: updateBody_def Let_def ens setPosition_params split: sum.splits)
qed

lemma initializeNeos_keeps:
  "b \<in> set bodies \<Longrightarrow> b \<in> set (initializeNeos h orb entries i bodies)"
proof (induction entries arbitrary: i bodies)
  case Nil
  then show ?case by simp
next
  case (Cons ent rest)
  obtain neoName neoData where ent: "ent = (neoName, neoData)"
    by (cases ent)
  show ?case
    unfolding ent using Cons
    by (simp add: Let_def split: option.splits)
qed

lemma initializePlanets_keeps:
  "b \<in> set bodies \<Longrightarrow> b \<in> set (initializePlanets h orb entries bodies)"
proof (induction entries arbitrary: bodies)
  case Nil
  then show ?case by simp
next
  case (Cons ent rest)
  obtain planetName planetData where ent: "ent = (planetName, planetData)"
    by (cases ent)
  show ?case
    unfolding ent using Cons
    by (simp add: Let_def split: option.splits)
qed

lemma member_Object_not_nullish: "member data k = Object r \<Longrightarrow> \<not> nullish data"
  by (cases data) simp_all

lemma initializeNeos_builds:
  assumes "\<not> nullish neoData"
    and "validateOrbitParams h (member neoData ''orbitParams'') \<noteq> None"
    and "createOrbitSafe h orb
           (Object (processedOrbitParams h (member neoData ''orbitParams'')))
           NEO_ORBIT_COLOR ORBIT_MESH_POINTS = Some orbit"
  shows "newBody h orb neoName (processedOrbitParams h (member neoData ''orbitParams'')) orbit
           \<in> set (initializeNeos h orb ((neoName, neoData) # rest) i bodies)"
  using assms
    initializeNeos_keeps [of
      "newBody h orb neoName (processedOrbitParams h (member neoData ''orbitParams'')) orbit"
      "bodies @ [newBody h orb neoName
                   (processedOrbitParams h (member neoData ''orbitParams'')) orbit]"
      h orb rest "i + 1"]
  by (auto simp add: Let_def)

lemma initializePlanets_builds:
  assumes "\<not> nullish planetData"
    and "validateOrbitParams h (member planetData ''orbitParams'') \<noteq> None"
    and "\<not> nullish (member planetData ''renderParams'')"
    and "createOrbitSafe h orb
           (Object (processedOrbitParams h (member planetData ''orbitParams'')))
           (member (member planetData ''renderParams'') ''color'') ORBIT_MESH_POINTS = Some orbit"
    and "\<not> nullish (member planetData ''extraParams'')"
  shows "newBody h orb planetName
           (processedOrbitParams h (member planetData ''orbitParams'')) orbit
           \<in> set (initializePlanets h orb ((planetName, planetData) # rest) bodies)"
  using assms
    initializePlanets_keeps [of
      "newBody h orb planetName
         (processedOrbitParams h (member planetData ''orbitParams'')) orbit"
      "bodies @ [newBody h orb planetName
                   (processedOrbitParams h (member planetData ''orbitParams'')) orbit]"
      h orb rest]
  by (auto simp add: Let_def)


lemma initializeNeos_reaches:
  "\<forall>(n, d) \<in> set pre. \<not> nullish d \<Longrightarrow> i + length pre < MAX_VISIBLE_NEOS \<Longrightarrow>
   \<exists>i' bodies'. set bodies \<subseteq> set bodies'
     \<and> initializeNeos h orb (pre @ rest) i bodies = initializeNeos h orb rest i' bodies'"
proof (induction pre arbitrary: i bodies)
  case Nil
  then show ?case by auto
next
  case (Cons ent pre)
  obtain n d where ent: "ent = (n, d)"
    by (cases ent)
  let ?processed = "processedOrbitParams h (member d ''orbitParams'')"
  from Cons.prems have d: "\<not> nullish d" and pre: "\<forall>(n, d) \<in> set pre. \<not> nullish d"
    and cap: "i + length pre < MAX_VISIBLE_NEOS" "Suc i + length pre < MAX_VISIBLE_NEOS"
      "i + 1 \<noteq> MAX_VISIBLE_NEOS"
    by (auto simp add: ent)
  consider (skip) "initializeNeos h orb ((ent # pre) @ rest) i bodies =
        initializeNeos h orb (pre @ rest) i bodies"
    | (push) orbit where "initializeNeos h orb ((ent # pre) @ rest) i bodies =
        initializeNeos h orb (pre @ rest) (Suc i) (bodies @ [newBody h orb n ?processed orbit])"
  proof (cases "validateOrbitParams h (member d ''orbitParams'') = None")
    case True
    then show ?thesis
      using d by (intro skip) (simp add: ent)
  next
    case valid: False
    show ?thesis
    proof (cases "createOrbitSafe h orb (Object ?processed) NEO_ORBIT_COLOR ORBIT_MESH_POINTS")
      case None
      then show ?thesis
        using d valid by (intro skip) (auto simp add: ent Let_def)
    next
      case (Some orbit)
      then show ?thesis
        using d valid cap(3) by (intro push [of orbit]) (auto simp add: ent Let_def)
    qed
  qed
  then show ?case
  proof cases
    case skip
    then show ?thesis
      using Cons.IH [OF pre cap(1), of bodies] by simp
  next
    case push
    obtain i' bodies' where
      "set (bodies @ [newBody h orb n ?processed orbit]) \<subseteq> set bodies'"
      "initializeNeos h orb (pre @ rest) (Suc i) (bodies @ [newBody h orb n ?processed orbit]) =
         initializeNeos h orb rest i' bodies'"
      using Cons.IH [OF pre cap(2), of "bodies @ [newBody h orb n ?processed orbit]"] by blast
    with push show ?thesis
      by (intro exI [of _ i'] exI [of _ bodies']) auto
  qed
qed

lemma initializePlanets_reaches:
  "\<forall>(n, d) \<in> set pre. planetEntryComplete d \<Longrightarrow>
   \<exists>bodies'. set bodies \<subseteq> set bodies'
     \<and> initializePlanets h orb (pre @ rest) bodies = initializePlanets h orb rest bodies'"
proof (induction pre arbitrary: bodies)
  case Nil
  then show ?case by auto
next
  case (Cons ent pre)
  obtain n d where ent: "ent = (n, d)"
    by (cases ent)
  let ?processed = "processedOrbitParams h (member d ''orbitParams'')"
  from Cons.prems have d: "planetEntryComplete d"
    and pre: "\<forall>(n, d) \<in> set pre. planetEntryComplete d"
    by (auto simp add: ent)
  consider (skip) "initializePlanets h orb ((ent # pre) @ rest) bodies =
        initializePlanets h orb (pre @ rest) bodies"
    | (push) orbit where "initializePlanets h orb ((ent # pre) @ rest) bodies =
        initializePlanets h orb (pre @ rest) (bodies @ [newBody h orb n ?processed orbit])"
  proof (cases "validateOrbitParams h (member d ''orbitParams'') = None")
    case True
    then show ?thesis
      using d by (intro skip) (simp add: ent planetEntryComplete_def)
  next
    case valid: False
    show ?thesis
    proof (cases "createOrbitSafe h orb (Object ?processed)
                    (member (member d ''renderParams'') ''color'') ORBIT_MESH_POINTS")
      case None
      then show ?thesis
        using d valid by (intro skip) (auto simp add: ent planetEntryComplete_def Let_def)
    next
      case (Some orbit)
      then show ?thesis
        using d valid
        by (intro push [of orbit]) (auto simp add: ent planetEntryComplete_def Let_def)
    qed
  qed
  then show ?case
  proof cases
    case skip
    then show ?thesis
      using Cons.IH [OF pre, of bodies] by simp
  next
    case push
    obtain bodies' where
      "set (bodies @ [newBody h orb n ?processed orbit]) \<subseteq> set bodies'"
      "initializePlanets h orb (pre @ rest) (bodies @ [newBody h orb n ?processed orbit]) =
         initializePlanets h orb rest bodies'"
      using Cons.IH [OF pre, of "bodies @ [newBody h orb n ?processed orbit]"] by blast
    with push show ?thesis
      by (intro exI [of _ bodies']) auto
  qed
qed

lemma valid_hyperbolic_record:
  assumes "finiteNumber (get_prop r ''inc'') \<and> finiteNumber (get_prop r ''node'')
        \<and> finiteNumber (get_prop r ''peri'')
        \<and> get_prop r ''a'' = Number (Finite a) \<and> 0 < a
        \<and> get_prop r ''e'' = Number (Finite x) \<and> 1 \<le> x"
  shows "validateOrbitParams h (Object r) = Some (set_prop r ''e'' (Number (Finite 0.999)))"
    and "get_prop (processedOrbitParams h (Object r)) ''e'' = Number (Finite x)"
  using assms
  by (simp_all add: validate_Object requiredFields_def num_ge_def processed_keeps)

lemma newBody_stores:
  "body_name (newBody h orb name processed orbit) = name
   \<and> orbitMesh (newBody h orb name processed orbit) = orbit
   \<and> data_orbitParams (newBody h orb name processed orbit) = processed"
  by (simp add: newBody_def Let_def)

lemma initializeNeos_stores_raw:
  assumes pre: "\<forall>(n, d) \<in> set pre. \<not> nullish d" "length pre < MAX_VISIBLE_NEOS"
    and raw: "member data ''orbitParams'' = Object r"
    and r: "finiteNumber (get_prop r ''inc'') \<and> finiteNumber (get_prop r ''node'')
        \<and> finiteNumber (get_prop r ''peri'')
        \<and> get_prop r ''a'' = Number (Finite a) \<and> 0 < a
        \<and> get_prop r ''e'' = Number (Finite x) \<and> 1 \<le> x"
    and orbit: "createOrbitSafe h orb (Object (processedOrbitParams h (Object r)))
        NEO_ORBIT_COLOR ORBIT_MESH_POINTS = Some orbit"
  shows "\<exists>b \<in> set (initializeNeos h orb (pre @ (name, data) # rest) 0 []).
           body_name b = name \<and> orbitMesh b = orbit
           \<and> data_orbitParams b = processedOrbitParams h (Object r)
           \<and> get_prop (data_orbitParams b) ''e'' = Number (Finite x)"
proof -
  obtain i' bodies' where reach:
    "initializeNeos h orb (pre @ (name, data) # rest) 0 [] =
       initializeNeos h orb ((name, data) # rest) i' bodies'"
    using initializeNeos_reaches [OF pre(1), of 0 "[]" h orb "(name, data) # rest"] pre(2)
    by auto
  have "newBody h orb name (processedOrbitParams h (member data ''orbitParams'')) orbit
      \<in> set (initializeNeos h orb ((name, data) # rest) i' bodies')"
    using raw orbit valid_hyperbolic_record(1) [OF r, of h]
    by (intro initializeNeos_builds) (simp_all add: member_Object_not_nullish [OF raw])
  then show ?thesis
    using reach raw valid_hyperbolic_record(2) [OF r, of h]
    by (intro bexI [of _ "newBody h orb name (processedOrbitParams h (Object r)) orbit"])
       (simp_all add: newBody_stores)
qed

lemma initializePlanets_stores_raw:
  assumes pre: "\<forall>(n, d) \<in> set pre. planetEntryComplete d"
    and complete: "planetEntryComplete data"
    and raw: "member data ''orbitParams'' = Object r"
    and r: "finiteNumber (get_prop r ''inc'') \<and> finiteNumber (get_prop r ''node'')
        \<and> finiteNumber (get_prop r ''peri'')
        \<and> get_prop r ''a'' = Number (Finite a) \<and> 0 < a
        \<and> get_prop r ''e'' = Number (Finite x) \<and> 1 \<le> x"
    and orbit: "createOrbitSafe h orb (Object (processedOrbitParams h (Object r)))
        (member (member data ''renderParams'') ''color'') ORBIT_MESH_POINTS = Some orbit"
  shows "\<exists>b \<in> set (initializePlanets h orb (pre @ (name, data) # rest) []).
           body_name b = name \<and> orbitMesh b = orbit
           \<and> data_orbitParams b = processedOrbitParams h (Object r)
           \<and> get_prop (data_orbitParams b) ''e'' = Number (Finite x)"
proof -
  obtain bodies' where reach:
    "initializePlanets h orb (pre @ (name, data) # rest) [] =
       initializePlanets h orb ((name, data) # rest) bodies'"
    using initializePlanets_reaches [OF pre, of "[]" h orb "(name, data) # rest"]
    by auto
  have "newBody h orb name (processedOrbitParams h (member data ''orbitParams'')) orbit
      \<in> set (initializePlanets h orb ((name, data) # rest) bodies')"
    using raw orbit complete valid_hyperbolic_record(1) [OF r, of h]
    by (intro initializePlanets_builds) (simp_all add: planetEntryComplete_def)
  then show ?thesis
    using reach raw valid_hyperbolic_record(2) [OF r, of h]
    by (intro bexI [of _ "newBody h orb name (processedOrbitParams h (Object r)) orbit"])
       (simp_all add: newBody_stores)
qed


text \<open>
  C10. A record with finite required fields, a > 0 and eccentricity x \<ge> 1 passes
  validation, and the copy the validator returns has eccentricity 0.999; the copy the
  initializers convert and store keeps the eccentricity x. Every body
  \<^verbatim>\<open>initializeNeos\<close> or \<^verbatim>\<open>initializePlanets\<close> builds comes from an entry whose
  raw record passed validation, and stores the converted copy of that raw record, with the
  raw eccentricity. A per-frame update of a body whose true anomaly is finite passes the
  stored eccentricity to the Position Resolver, and no update changes the stored
  eccentricity.

  Conversely the initializers do build such a body. Take an entry, anywhere in the data,
  whose raw record has finite required fields, a > 0 and eccentricity x \<ge> 1, and for
  which the Orbit Curve Generator wrapper returns a curve. \<^verbatim>\<open>initializeNeos\<close>
  reaches it when the entries before it are not null or undefined and are fewer than
  \<^verbatim>\<open>MAX_VISIBLE_NEOS\<close>; \<^verbatim>\<open>initializePlanets\<close> reaches it when the entries before
  it, and the entry itself, have the \<^verbatim>\<open>renderParams\<close> and \<^verbatim>\<open>extraParams\<close> the
  loop reads. The result then holds a body with the entry's name and that curve, whose
  stored record is the converted copy of the raw record, with eccentricity x.

  The Anomaly Solver is not among the sources, so it is a parameter of the statement: the
  part on the per-frame update holds for every solver, whenever the anomaly it returns is
  finite. What a given solver returns for an eccentricity of 1 or more is not decided here;
  the sample run uses the fixed solver of the sample orbit module.
\<close>

theorem initializers_store_raw_eccentricity:
  "(\<forall>r a x. finiteNumber (get_prop r ''inc'') \<and> finiteNumber (get_prop r ''node'')
        \<and> finiteNumber (get_prop r ''peri'')
        \<and> get_prop r ''a'' = Number (Finite a) \<and> 0 < a
        \<and> get_prop r ''e'' = Number (Finite x) \<and> 1 \<le> x
      \<longrightarrow> validateOrbitParams h (Object r) = Some (set_prop r ''e'' (Number (Finite 0.999)))
        \<and> get_prop (processedOrbitParams h (Object r)) ''e'' = Number (Finite x))
   \<and> (\<forall>entries b.
         b \<in> set (initializeNeos h orb entries 0 [])
         \<or> b \<in> set (initializePlanets h orb entries [])
       \<longrightarrow> (\<exists>(name, data) \<in> set entries.
              body_name b = name
              \<and> validateOrbitParams h (member data ''orbitParams'') \<noteq> None
              \<and> data_orbitParams b = processedOrbitParams h (member data ''orbitParams'')
              \<and> get_prop (data_orbitParams b) ''e'' =
                  get_prop (spread (member data ''orbitParams'')) ''e''))
   \<and> (\<forall>(b::body) t \<nu>. finiteNumber (Number t)
         \<and> JulianDateToTrueAnomaly orb (data_orbitParams b) t = Inr \<nu>
         \<and> \<not> isNaN h \<nu> \<and> isFinite h \<nu>
       \<longrightarrow> updateBody h orb t b =
             setPosition h
               (b\<lparr>data_orbitParams := snd (ensureTransformMatrix h (data_orbitParams b))\<rparr>)
               (getOrbitPositionSafe h orb (get_prop (data_orbitParams b) ''a'')
                  (get_prop (data_orbitParams b) ''e'') \<nu>
                  (fst (ensureTransformMatrix h (data_orbitParams b)))))
   \<and> (\<forall>(b::body) t. get_prop (data_orbitParams (updateBody h orb t b)) ''e'' =
               get_prop (data_orbitParams b) ''e'')
   \<and> (\<forall>pre name data rest r a x orbit.
         (\<forall>(n, d) \<in> set pre. \<not> nullish d) \<and> length pre < MAX_VISIBLE_NEOS
         \<and> member data ''orbitParams'' = Object r
         \<and> finiteNumber (get_prop r ''inc'') \<and> finiteNumber (get_prop r ''node'')
         \<and> finiteNumber (get_prop r ''peri'')
         \<and> get_prop r ''a'' = Number (Finite a) \<and> 0 < a
         \<and> get_prop r ''e'' = Number (Finite x) \<and> 1 \<le> x
         \<and> createOrbitSafe h orb (Object (processedOrbitParams h (Object r)))
              NEO_ORBIT_COLOR ORBIT_MESH_POINTS = Some orbit
       \<longrightarrow> (\<exists>b \<in> set (initializeNeos h orb (pre @ (name, data) # rest) 0 []).
              body_name b = name \<and> orbitMesh b = orbit
              \<and> data_orbitParams b = processedOrbitParams h (Object r)
              \<and> get_prop (data_orbitParams b) ''e'' = Number (Finite x)))
   \<and> (\<forall>pre name data rest r a x orbit.
         (\<forall>(n, d) \<in> set pre. planetEntryComplete d) \<and> planetEntryComplete data
         \<and> member data ''orbitParams'' = Object r
         \<and> finiteNumber (get_prop r ''inc'') \<and> finiteNumber (get_prop r ''node'')
         \<and> finiteNumber (get_prop r ''peri'')
         \<and> get_prop r ''a'' = Number (Finite a) \<and> 0 < a
         \<and> get_prop r ''e'' = Number (Finite x) \<and> 1 \<le> x
         \<and> createOrbitSafe h orb (Object (processedOrbitParams h (Object r)))
              (member (member data ''renderParams'') ''color'') ORBIT_MESH_POINTS = Some orbit
       \<longrightarrow> (\<exists>b \<in> set (initializePlanets h orb (pre @ (name, data) # rest) []).
              body_name b = name \<and> orbitMesh b = orbit
              \<and> data_orbitParams b = processedOrbitParams h (Object r)
              \<and> get_prop (data_orbitParams b) ''e'' = Number (Finite x)))"
proof (intro conjI allI impI)
  fix r a x
  assume r: "finiteNumber (get_prop r ''inc'') \<and> finiteNumber (get_prop r ''node'')
        \<and> finiteNumber (get_prop r ''peri'')
        \<and> get_prop r ''a'' = Number (Finite a) \<and> 0 < a
        \<and> get_prop r ''e'' = Number (Finite x) \<and> 1 \<le> x"
  then show "validateOrbitParams h (Object r) = Some (set_prop r ''e'' (Number (Finite 0.999)))"
    by (simp add: validate_Object requiredFields_def num_ge_def)
  from r show "get_prop (processedOrbitParams h (Object r)) ''e'' = Number (Finite x)"
    by (simp add: processed_keeps)
next
  fix entries b
  assume "b \<in> set (initializeNeos h orb entries 0 [])
         \<or> b \<in> set (initializePlanets h orb entries [])"
  then have "builtFrom h entries b"
    using initializeNeos_builtFrom [of b h orb entries 0 "[]"]
      initializePlanets_builtFrom [of b h orb entries "[]"]
    by auto
  then show "\<exists>(name, data) \<in> set entries.
              body_name b = name
              \<and> validateOrbitParams h (member data ''orbitParams'') \<noteq> None
              \<and> data_orbitParams b = processedOrbitParams h (member data ''orbitParams'')
              \<and> get_prop (data_orbitParams b) ''e'' =
                  get_prop (spread (member data ''orbitParams'')) ''e''"
    unfolding builtFrom_def by (auto simp add: processed_keeps)
next
  fix b :: body and t \<nu>
  assume "finiteNumber (Number t)
         \<and> JulianDateToTrueAnomaly orb (data_orbitParams b) t = Inr \<nu>
         \<and> \<not> isNaN h \<nu> \<and> isFinite h \<nu>"
  then show "updateBody h orb t b =
             setPosition h
               (b\<lparr>data_orbitParams := snd (ensureTransformMatrix h (data_orbitParams b))\<rparr>)
               (getOrbitPositionSafe h orb (get_prop (data_orbitParams b) ''a'')
                  (get_prop (data_orbitParams b) ''e'') \<nu>
                  (fst (ensureTransformMatrix h (data_orbitParams b))))"
    by (simp add: updateBody_valid)
next
  fix b :: body and t
  show "get_prop (data_orbitParams (updateBody h orb t b)) ''e'' =
          get_prop (data_orbitParams b) ''e''"
    by (simp add: updateBody_keeps)
next
  fix pre rest :: "(string \<times> jsval) list" and name :: string and data r a x orbit
  assume "(\<forall>(n, d) \<in> set pre. \<not> nullish d) \<and> length pre < MAX_VISIBLE_NEOS
         \<and> member data ''orbitParams'' = Object r
         \<and> finiteNumber (get_prop r ''inc'') \<and> finiteNumber (get_prop r ''node'')
         \<and> finiteNumber (get_prop r ''peri'')
         \<and> get_prop r ''a'' = Number (Finite a) \<and> 0 < a
         \<and> get_prop r ''e'' = Number (Finite x) \<and> 1 \<le> x
         \<and> createOrbitSafe h orb (Object (processedOrbitParams h (Object r)))
              NEO_ORBIT_COLOR ORBIT_MESH_POINTS = Some orbit"
  then show "\<exists>b \<in> set (initializeNeos h orb (pre @ (name, data) # rest) 0 []).
              body_name b = name \<and> orbitMesh b = orbit
              \<and> data_orbitParams b = processedOrbitParams h (Object r)
              \<and> get_prop (data_orbitParams b) ''e'' = Number (Finite x)"
    by (intro initializeNeos_stores_raw [of pre data r a x h orb orbit name rest]) simp_all
next
  fix pre rest :: "(string \<times> jsval) list" and name :: string and data r a x orbit
  assume "(\<forall>(n, d) \<in> set pre. planetEntryComplete d) \<and> planetEntryComplete data
         \<and> member data ''orbitParams'' = Object r
         \<and> finiteNumber (get_prop r ''inc'') \<and> finiteNumber (get_prop r ''node'')
         \<and> finiteNumber (get_prop r ''peri'')
         \<and> get_prop r ''a'' = Number (Finite a) \<and> 0 < a
         \<and> get_prop r ''e'' = Number (Finite x) \<and> 1 \<le> x
         \<and> createOrbitSafe h orb (Object (processedOrbitParams h (Object r)))
              (member (member data ''renderParams'') ''color'') ORBIT_MESH_POINTS = Some orbit"
  then show "\<exists>b \<in> set (initializePlanets h orb (pre @ (name, data) # rest) []).
              body_name b = name \<and> orbitMesh b = orbit
              \<and> data_orbitParams b = processedOrbitParams h (Object r)
              \<and> get_prop (data_orbitParams b) ''e'' = Number (Finite x)"
    by (intro initializePlanets_stores_raw [of pre data r a x h orb orbit name rest]) simp_all
qed


lemma validate_hyperbolic:
  "validateOrbitParams exact_host (Object hyperbolicOrbit) = Some clampedOrbit"
  by (simp add: validate_Object requiredFields_def hyperbolicOrbit_def clampedOrbit_def
        get_prop_Cons get_prop_Nil num_ge_def set_prop_def)

lemma processed_hyperbolic:
  "processedOrbitParams exact_host (Object hyperbolicOrbit) = hyperbolicOrbit"
  by (simp add: processedOrbitParams_def mulAssign_def DEG_TO_RAD_def exact_host_fields
        hyperbolicOrbit_def get_prop_Cons get_prop_Nil set_prop_def Let_def)

lemma position_clamped:
  "spec_getOrbitPosition exact_host (Number (Finite 1)) (Number (Finite (999 / 1000)))
     (Number (Finite 0)) identityMatrix =
   Inr (Object [(''x'', Number (Finite (1 / 1000))), (''y'', Number (Finite 0)),
                (''z'', Number (Finite 0))])"
  "spec_getOrbitPosition exact_host (Number (Finite 1)) (Number (Finite (999 / 1000)))
     (Number (Finite pi)) identityMatrix =
   Inr (Object [(''x'', Number (Finite (- (1999 / 1000)))), (''y'', Number (Finite 0)),
                (''z'', Number (Finite 0))])"
  by (simp_all add: spec_getOrbitPosition_def identityMatrix_entries exact_host_fields
        exact_sub_def Let_def)

lemma createOrbitSafe_hyperbolic:
  "createOrbitSafe exact_host sample_orbits (Object hyperbolicOrbit) color points =
     Some clampedCurve"
proof -
  have flat: "ensureTransformMatrix exact_host clampedOrbit =
      (identityMatrix, set_prop clampedOrbit ''transformMatrix'' identityMatrix)"
    by (rule ensure_flat) (simp_all add: clampedOrbit_def get_prop_Cons get_prop_Nil)
  have fields: "get_prop (set_prop clampedOrbit ''transformMatrix'' identityMatrix) ''a'' =
        Number (Finite 1)"
      "get_prop (set_prop clampedOrbit ''transformMatrix'' identityMatrix) ''e'' =
        Number (Finite 0.999)"
      "get_prop (set_prop clampedOrbit ''transformMatrix'' identityMatrix) ''transformMatrix'' =
        identityMatrix"
    by (simp_all add: get_set_prop) (simp_all add: clampedOrbit_def get_prop_Cons)
  have curve: "createOrbit sample_orbits clampedOrbit color points =
      Inr (Some \<lparr>positions = Some [Number (Finite 0.001), Number (Finite 0), Number (Finite 0),
                        Number (Finite (- 1.999)), Number (Finite 0), Number (Finite 0)],
                  userData = []\<rparr>,
           set_prop clampedOrbit ''transformMatrix'' identityMatrix)"
    by (simp add: sample_orbits_def spec_createOrbit_def flat fields position_clamped
          coordinates_def get_prop_Cons get_prop_Nil Let_def)
  have empty: "set_prop [] ''transformMatrix'' identityMatrix =
      [(''transformMatrix'', identityMatrix)]"
    by (simp add: set_prop_def)
  show ?thesis
    by (simp add: createOrbitSafe_def validate_hyperbolic curve fields matrix_ok isNaN_def
          isFinite_def clampedCurve_def empty)
qed

lemma newBody_hyperbolic:
  "newBody exact_host sample_orbits ''Oumuamua'' hyperbolicOrbit clampedCurve = hyperbolicBody"
proof -
  have "get_prop hyperbolicOrbit ''transformMatrix'' = Undefined"
    by (simp add: hyperbolicOrbit_def get_prop_Cons get_prop_Nil)
  then show ?thesis
    by (simp add: newBody_def getOrbitPositionSafe_def hyperbolicOrbit_def get_prop_Cons
          isNaN_def isFinite_def origin_def hyperbolicBody_def Let_def)
qed

lemma initializeNeos_interstellar:
  "initializeNeos exact_host sample_orbits [interstellar] 0 [] = [hyperbolicBody]"
  by (simp add: interstellar_def get_prop_Cons validate_hyperbolic processed_hyperbolic
        createOrbitSafe_hyperbolic newBody_hyperbolic MAX_VISIBLE_NEOS_def)

lemma position_hyperbolic:
  "spec_getOrbitPosition exact_host (Number (Finite 1)) (Number (Finite (3 / 2)))
     (Number (Finite 0)) identityMatrix =
   Inr (Object [(''x'', Number (Finite (- (1 / 2)))), (''y'', Number (Finite 0)),
                (''z'', Number (Finite 0))])"
  by (simp add: spec_getOrbitPosition_def identityMatrix_entries exact_host_fields
        exact_sub_def Let_def)

lemma hyperbolic_step:
  "setPosition exact_host
     (hyperbolicBody\<lparr>data_orbitParams :=
        snd (ensureTransformMatrix exact_host (data_orbitParams hyperbolicBody))\<rparr>)
     (getOrbitPositionSafe exact_host sample_orbits
        (get_prop (data_orbitParams hyperbolicBody) ''a'')
        (get_prop (data_orbitParams hyperbolicBody) ''e'') (Number (Finite 0))
        (fst (ensureTransformMatrix exact_host (data_orbitParams hyperbolicBody)))) =
   hyperbolicBody
     \<lparr>data_orbitParams := set_prop hyperbolicOrbit ''transformMatrix'' identityMatrix,
      bodyMesh := Some (Number (Finite (- 0.5)), Number (Finite 0), Number (Finite 0))\<rparr>"
proof -
  have flat: "ensureTransformMatrix exact_host hyperbolicOrbit =
      (identityMatrix, set_prop hyperbolicOrbit ''transformMatrix'' identityMatrix)"
    by (rule ensure_flat) (simp_all add: hyperbolicOrbit_def get_prop_Cons get_prop_Nil)
  have fields: "get_prop hyperbolicOrbit ''a'' = Number (Finite 1)"
      "get_prop hyperbolicOrbit ''e'' = Number (Finite (3 / 2))"
    by (simp_all add: hyperbolicOrbit_def get_prop_Cons)
  have safe: "getOrbitPositionSafe exact_host sample_orbits (Number (Finite 1))
      (Number (Finite (3 / 2))) (Number (Finite 0)) identityMatrix =
      Object [(''x'', Number (Finite (- (1 / 2)))), (''y'', Number (Finite 0)),
              (''z'', Number (Finite 0))]"
    by (simp add: getOrbitPositionSafe_def sample_orbits_def position_hyperbolic matrix_ok
          validatePosition_def isNaN_def isFinite_def get_prop_Cons Let_def)
  show ?thesis
    by (simp add: hyperbolicBody_def flat fields safe setPosition_def validatePosition_def
          isNaN_def isFinite_def get_prop_Cons Let_def)
qed

lemma ghost_skipped:
  "\<not> nullish (snd ghost)" "planetEntryComplete (snd ghost)"
  "validateOrbitParams exact_host (member (snd ghost) ''orbitParams'') = None"
  by (simp_all add: ghost_def planetEntryComplete_def get_prop_Cons validate_negativeAxis)

lemma interstellarPlanet_fields:
  "planetEntryComplete (snd interstellarPlanet)"
  "member (snd interstellarPlanet) ''orbitParams'' = Object hyperbolicOrbit"
  "member (member (snd interstellarPlanet) ''renderParams'') ''color'' = Number (Finite 255)"
  "fst interstellarPlanet = ''Oumuamua''"
  by (simp_all add: interstellarPlanet_def planetEntryComplete_def get_prop_Cons)

lemma interstellar_fields:
  "member (snd interstellar) ''orbitParams'' = Object hyperbolicOrbit"
  "fst interstellar = ''Oumuamua''"
  by (simp_all add: interstellar_def get_prop_Cons)

lemma initializeNeos_two:
  "initializeNeos exact_host sample_orbits ([ghost] @ interstellar # []) 0 [] = [hyperbolicBody]"
proof -
  have "initializeNeos exact_host sample_orbits ([ghost] @ interstellar # []) 0 [] =
      initializeNeos exact_host sample_orbits [interstellar] 0 []"
    by (simp add: ghost_def get_prop_Cons validate_negativeAxis)
  then show ?thesis
    by (simp add: initializeNeos_interstellar)
qed

lemma initializePlanets_two:
  "initializePlanets exact_host sample_orbits ([ghost] @ interstellarPlanet # []) [] =
     [hyperbolicBody]"
proof -
  have skip: "initializePlanets exact_host sample_orbits ([ghost] @ interstellarPlanet # []) [] =
      initializePlanets exact_host sample_orbits [interstellarPlanet] []"
    by (simp add: ghost_def get_prop_Cons validate_negativeAxis)
  have "initializePlanets exact_host sample_orbits [interstellarPlanet] [] = [hyperbolicBody]"
    by (simp add: interstellarPlanet_def get_prop_Cons validate_hyperbolic processed_hyperbolic
          createOrbitSafe_hyperbolic newBody_hyperbolic)
  with skip show ?thesis
    by simp
qed

theorem initializers_store_raw_eccentricity_witness:
  "get_prop hyperbolicOrbit ''a'' = Number (Finite 1)
   \<and> get_prop hyperbolicOrbit ''e'' = Number (Finite 1.5)
   \<and> validateOrbitParams exact_host (Object hyperbolicOrbit) =
       Some (set_prop hyperbolicOrbit ''e'' (Number (Finite 0.999)))
   \<and> hyperbolicBody \<in> set (initializeNeos exact_host sample_orbits [interstellar] 0 [])
   \<and> get_prop (data_orbitParams hyperbolicBody) ''e'' = Number (Finite 1.5)
   \<and> JulianDateToTrueAnomaly sample_orbits (data_orbitParams hyperbolicBody) (Finite 60000) =
       Inr (Number (Finite 0))
   \<and> updateBody exact_host sample_orbits (Finite 60000) hyperbolicBody =
       hyperbolicBody
         \<lparr>data_orbitParams := set_prop hyperbolicOrbit ''transformMatrix'' identityMatrix,
          bodyMesh := Some (Number (Finite (- 0.5)), Number (Finite 0), Number (Finite 0))\<rparr>
   \<and> \<not> nullish (snd ghost) \<and> length [ghost] < MAX_VISIBLE_NEOS
   \<and> member (snd interstellar) ''orbitParams'' = Object hyperbolicOrbit
   \<and> createOrbitSafe exact_host sample_orbits
        (Object (processedOrbitParams exact_host (Object hyperbolicOrbit)))
        NEO_ORBIT_COLOR ORBIT_MESH_POINTS = Some clampedCurve
   \<and> (\<exists>b \<in> set (initializeNeos exact_host sample_orbits ([ghost] @ interstellar # []) 0 []).
         body_name b = ''Oumuamua'' \<and> orbitMesh b = clampedCurve
         \<and> get_prop (data_orbitParams b) ''e'' = Number (Finite 1.5))
   \<and> initializeNeos exact_host sample_orbits ([ghost] @ interstellar # []) 0 [] =
        [hyperbolicBody]
   \<and> planetEntryComplete (snd ghost)
   \<and> planetEntryComplete (snd interstellarPlanet)
   \<and> member (snd interstellarPlanet) ''orbitParams'' = Object hyperbolicOrbit
   \<and> createOrbitSafe exact_host sample_orbits
        (Object (processedOrbitParams exact_host (Object hyperbolicOrbit)))
        (member (member (snd interstellarPlanet) ''renderParams'') ''color'')
        ORBIT_MESH_POINTS = Some clampedCurve
   \<and> (\<exists>b \<in> set (initializePlanets exact_host sample_orbits
                     ([ghost] @ interstellarPlanet # []) []).
         body_name b = ''Oumuamua'' \<and> orbitMesh b = clampedCurve
         \<and> get_prop (data_orbitParams b) ''e'' = Number (Finite 1.5))
   \<and> initializePlanets exact_host sample_orbits ([ghost] @ interstellarPlanet # []) [] =
        [hyperbolicBody]"
proof -
  note T = initializers_store_raw_eccentricity [of exact_host sample_orbits]
  have fields: "finiteNumber (get_prop hyperbolicOrbit ''inc'')
      \<and> finiteNumber (get_prop hyperbolicOrbit ''node'')
      \<and> finiteNumber (get_prop hyperbolicOrbit ''peri'')
      \<and> get_prop hyperbolicOrbit ''a'' = Number (Finite 1) \<and> (0::real) < 1
      \<and> get_prop hyperbolicOrbit ''e'' = Number (Finite 1.5) \<and> (1::real) \<le> 1.5"
    by (simp add: hyperbolicOrbit_def get_prop_Cons)
  have clamp: "validateOrbitParams exact_host (Object hyperbolicOrbit) =
       Some (set_prop hyperbolicOrbit ''e'' (Number (Finite 0.999)))
     \<and> get_prop (processedOrbitParams exact_host (Object hyperbolicOrbit)) ''e'' =
       Number (Finite 1.5)"
    using T [THEN conjunct1, rule_format, OF fields] .
  have built: "hyperbolicBody \<in> set (initializeNeos exact_host sample_orbits [interstellar] 0 [])"
    by (simp add: initializeNeos_interstellar)
  then have "\<exists>(name, data) \<in> set [interstellar].
      body_name hyperbolicBody = name
      \<and> validateOrbitParams exact_host (member data ''orbitParams'') \<noteq> None
      \<and> data_orbitParams hyperbolicBody =
          processedOrbitParams exact_host (member data ''orbitParams'')
      \<and> get_prop (data_orbitParams hyperbolicBody) ''e'' =
          get_prop (spread (member data ''orbitParams'')) ''e''"
    using T [THEN conjunct2, THEN conjunct1, rule_format, of hyperbolicBody "[interstellar]"]
    by blast
  then have "get_prop (data_orbitParams hyperbolicBody) ''e'' =
      get_prop (spread (member (snd interstellar) ''orbitParams'')) ''e''"
    by (auto simp add: case_prod_unfold)
  also have "\<dots> = Number (Finite 1.5)"
    using fields by (simp add: interstellar_def get_prop_Cons)
  finally have stored: "get_prop (data_orbitParams hyperbolicBody) ''e'' = Number (Finite 1.5)" .
  have anomaly: "JulianDateToTrueAnomaly sample_orbits (data_orbitParams hyperbolicBody)
      (Finite 60000) = Inr (Number (Finite 0))"
    by (simp add: sample_orbits_def fixedAnomaly_def hyperbolicBody_def hyperbolicOrbit_def
          get_prop_Cons)
  have frame: "finiteNumber (Number (Finite 60000))
      \<and> JulianDateToTrueAnomaly sample_orbits (data_orbitParams hyperbolicBody)
          (Finite 60000) = Inr (Number (Finite 0))
      \<and> \<not> isNaN exact_host (Number (Finite 0)) \<and> isFinite exact_host (Number (Finite 0))"
    using anomaly by (simp add: isNaN_def isFinite_def)
  have update: "updateBody exact_host sample_orbits (Finite 60000) hyperbolicBody =
       hyperbolicBody
         \<lparr>data_orbitParams := set_prop hyperbolicOrbit ''transformMatrix'' identityMatrix,
          bodyMesh := Some (Number (Finite (- 0.5)), Number (Finite 0), Number (Finite 0))\<rparr>"
    using T [THEN conjunct2, THEN conjunct2, THEN conjunct1, rule_format, OF frame]
    by (simp only: hyperbolic_step)
  have curve: "createOrbitSafe exact_host sample_orbits
        (Object (processedOrbitParams exact_host (Object hyperbolicOrbit))) color
        ORBIT_MESH_POINTS = Some clampedCurve" for color
    by (simp add: processed_hyperbolic createOrbitSafe_hyperbolic)
  have pre: "\<forall>(n, d) \<in> set [ghost]. \<not> nullish d" "length [ghost] < MAX_VISIBLE_NEOS"
    "\<forall>(n, d) \<in> set [ghost]. planetEntryComplete d"
    using ghost_skipped by (simp_all add: case_prod_unfold MAX_VISIBLE_NEOS_def)
  have neo_prem: "(\<forall>(n, d) \<in> set [ghost]. \<not> nullish d) \<and> length [ghost] < MAX_VISIBLE_NEOS
      \<and> member (snd interstellar) ''orbitParams'' = Object hyperbolicOrbit
      \<and> finiteNumber (get_prop hyperbolicOrbit ''inc'')
      \<and> finiteNumber (get_prop hyperbolicOrbit ''node'')
      \<and> finiteNumber (get_prop hyperbolicOrbit ''peri'')
      \<and> get_prop hyperbolicOrbit ''a'' = Number (Finite 1) \<and> (0::real) < 1
      \<and> get_prop hyperbolicOrbit ''e'' = Number (Finite 1.5) \<and> (1::real) \<le> 1.5
      \<and> createOrbitSafe exact_host sample_orbits
           (Object (processedOrbitParams exact_host (Object hyperbolicOrbit)))
           NEO_ORBIT_COLOR ORBIT_MESH_POINTS = Some clampedCurve"
    using pre fields interstellar_fields curve by blast
  have neo: "\<exists>b \<in> set (initializeNeos exact_host sample_orbits
                           ([ghost] @ interstellar # []) 0 []).
         body_name b = ''Oumuamua'' \<and> orbitMesh b = clampedCurve
         \<and> get_prop (data_orbitParams b) ''e'' = Number (Finite 1.5)"
    using T [THEN conjunct2, THEN conjunct2, THEN conjunct2, THEN conjunct2, THEN conjunct1,
        rule_format, OF neo_prem, of "fst interstellar" "[]", unfolded prod.collapse]
    by (auto simp add: interstellar_fields)
  have planet_prem: "(\<forall>(n, d) \<in> set [ghost]. planetEntryComplete d)
      \<and> planetEntryComplete (snd interstellarPlanet)
      \<and> member (snd interstellarPlanet) ''orbitParams'' = Object hyperbolicOrbit
      \<and> finiteNumber (get_prop hyperbolicOrbit ''inc'')
      \<and> finiteNumber (get_prop hyperbolicOrbit ''node'')
      \<and> finiteNumber (get_prop hyperbolicOrbit ''peri'')
      \<and> get_prop hyperbolicOrbit ''a'' = Number (Finite 1) \<and> (0::real) < 1
      \<and> get_prop hyperbolicOrbit ''e'' = Number (Finite 1.5) \<and> (1::real) \<le> 1.5
      \<and> createOrbitSafe exact_host sample_orbits
           (Object (processedOrbitParams exact_host (Object hyperbolicOrbit)))
           (member (member (snd interstellarPlanet) ''renderParams'') ''color'')
           ORBIT_MESH_POINTS = Some clampedCurve"
    using pre fields interstellarPlanet_fields curve by blast
  have planet: "\<exists>b \<in> set (initializePlanets exact_host sample_orbits
                              ([ghost] @ interstellarPlanet # []) []).
         body_name b = ''Oumuamua'' \<and> orbitMesh b = clampedCurve
         \<and> get_prop (data_orbitParams b) ''e'' = Number (Finite 1.5)"
    using T [THEN conjunct2, THEN conjunct2, THEN conjunct2, THEN conjunct2, THEN conjunct2,
        rule_format, OF planet_prem, of "fst interstellarPlanet" "[]", unfolded prod.collapse]
    by (auto simp add: interstellarPlanet_fields)
  show ?thesis
    using fields clamp built stored anomaly update pre ghost_skipped interstellar_fields
      interstellarPlanet_fields curve neo planet initializeNeos_two initializePlanets_two
    by simp
qed

end
